theory Spec2Isabelle
  imports Complex_Main
begin

section \<open>Python values used by the services\<close>

text \<open>
  A Python \<open>str\<close> is modelled as a \<open>string\<close>; one list element stands for one Python
  character, so \<open>length\<close> is Python's \<open>len\<close>. The helpers below are the \<open>str\<close> methods and
  the \<open>os.path\<close> functions (POSIX flavour) that the source calls.
\<close>

definition startswith :: "string \<Rightarrow> string \<Rightarrow> bool" where
  "startswith s p = (take (length p) s = p)"

definition endswith :: "string \<Rightarrow> string \<Rightarrow> bool" where
  "endswith s p = (length p \<le> length s \<and> drop (length s - length p) s = p)"

text \<open>\<open>sep.join(parts)\<close>.\<close>

fun join :: "string \<Rightarrow> string list \<Rightarrow> string" where
  "join sep [] = []"
| "join sep [x] = x"
| "join sep (x # y # ys) = x @ sep @ join sep (y # ys)"

text \<open>\<open>s.replace(c, '')\<close> for a one-character \<open>c\<close>: every occurrence is dropped.\<close>

definition remove_char :: "char \<Rightarrow> string \<Rightarrow> string" where
  "remove_char c s = filter (\<lambda>x. x \<noteq> c) s"

text \<open>
  \<open>str.isspace\<close> on the code points a \<open>char\<close> can hold (tab to carriage return, the
  four separators \<open>0x1C\<close> to \<open>0x1F\<close>, the space, \<open>U+0085\<close> and \<open>U+00A0\<close>), and \<open>s.strip()\<close>.
\<close>

definition isspace :: "char \<Rightarrow> bool" where
  "isspace c =
     (let n = (of_char c :: nat)
      in (9 \<le> n \<and> n \<le> 13) \<or> (28 \<le> n \<and> n \<le> 32) \<or> n = 133 \<or> n = 160)"

definition strip :: "string \<Rightarrow> string" where
  "strip s = rev (dropWhile isspace (rev (dropWhile isspace s)))"

text \<open>
  \<open>s.lower()\<close> on the ASCII letters. The source compares the lowered extension with
  \<open>.wav\<close> only, and no other character is lowered to an ASCII letter.
\<close>

definition lower_char :: "char \<Rightarrow> char" where
  "lower_char c =
     (case map_of (zip ''ABCDEFGHIJKLMNOPQRSTUVWXYZ'' ''abcdefghijklmnopqrstuvwxyz'') c of
        Some l \<Rightarrow> l
      | None \<Rightarrow> c)"

definition lower :: "string \<Rightarrow> string" where
  "lower s = map lower_char s"

text \<open>\<open>s.rfind(c)\<close>: the index of the last occurrence of \<open>c\<close>, or \<open>-1\<close>.\<close>

definition rfind :: "char \<Rightarrow> string \<Rightarrow> int" where
  "rfind c s =
     (if c \<in> set s then int (length s) - 1 - int (length (takeWhile (\<lambda>x. x \<noteq> c) (rev s)))
      else - 1)"

text \<open>\<open>s.rsplit(c, 1)[0]\<close>: the text before the last \<open>c\<close>, or all of \<open>s\<close> when there is none.\<close>

definition rsplit1_head :: "char \<Rightarrow> string \<Rightarrow> string" where
  "rsplit1_head c s =
     (if c \<in> set s then rev (tl (dropWhile (\<lambda>x. x \<noteq> c) (rev s))) else s)"

text \<open>
  \<open>os.path.splitext(p)\<close>: the extension starts at the last dot, provided that dot lies in
  the last path component and some character of that component before it is not a dot
  (the library's loop over the leading dots returns at the first such character).
\<close>

definition splitext :: "string \<Rightarrow> string \<times> string" where
  "splitext p =
     (let sepIndex = rfind (CHR ''/'') p;
          dotIndex = rfind (CHR ''.'') p
      in if dotIndex > sepIndex \<and>
            list_ex (\<lambda>x. x \<noteq> CHR ''.'')
              (take (nat dotIndex - nat (sepIndex + 1)) (drop (nat (sepIndex + 1)) p))
         then (take (nat dotIndex) p, drop (nat dotIndex) p)
         else (p, []))"

text \<open>\<open>os.path.basename(p)\<close>.\<close>

definition basename :: "string \<Rightarrow> string" where
  "basename p = drop (nat (rfind (CHR ''/'') p + 1)) p"

text \<open>
  Exceptions. Every one of them is an instance of \<open>Exception\<close>, so \<open>except Exception\<close>
  catches it. \<open>Exn m\<close> is any exception whose \<open>str\<close> is \<open>m\<close>; \<open>IndexError\<close> is what
  indexing an empty sequence at \<open>0\<close> raises; \<open>UnboundLocalError v\<close> is what reading the
  local variable \<open>v\<close> raises before it was assigned.
\<close>

datatype exn = Exn string | IndexError | UnboundLocalError string

fun str_exn :: "exn \<Rightarrow> string" where
  "str_exn (Exn m) = m"
| "str_exn IndexError = ''list index out of range''"
| "str_exn (UnboundLocalError v) =
     ''cannot access local variable '' @ [CHR 0x27] @ v @ [CHR 0x27] @
     '' where it is not associated with a value''"

text \<open>
  A Python \<open>float\<close>: a finite value or one of the three special values. Only comparisons
  are made on it, and they are exact.
\<close>

datatype pyfloat = Finite real | PosInf | NegInf | NaN

fun float_gt :: "pyfloat \<Rightarrow> real \<Rightarrow> bool" where
  "float_gt (Finite x) r = (x > r)"
| "float_gt PosInf r = True"
| "float_gt NegInf r = False"
| "float_gt NaN r = False"

fun float_le :: "pyfloat \<Rightarrow> real \<Rightarrow> bool" where
  "float_le (Finite x) r = (x \<le> r)"
| "float_le PosInf r = False"
| "float_le NegInf r = True"
| "float_le NaN r = False"

text \<open>\<open>str(n)\<close> for a natural number.\<close>

fun str_nat :: "nat \<Rightarrow> string" where
  "str_nat n =
     (if n < 10 then [''0123456789'' ! n]
      else str_nat (n div 10) @ [''0123456789'' ! (n mod 10)])"

declare str_nat.simps [simp del]

text \<open>How an f-string renders an optional string: \<open>None\<close> becomes the text \<open>None\<close>.\<close>

fun py_str :: "string option \<Rightarrow> string" where
  "py_str None = ''None''"
| "py_str (Some x) = x"

section \<open>The world outside the process\<close>

text \<open>
  \<open>subprocess.run(argv, check=True, capture_output=True)\<close> returns the captured standard
  output, raises \<open>CalledProcessError\<close> when the exit status is not zero, or raises
  something else (the program is not installed, say). \<open>CalledProcessError\<close> keeps \<open>str(e)\<close>
  and what \<open>e.stderr.decode()\<close> gives: the text of the standard error output, or the
  \<open>UnicodeDecodeError\<close> the call raises when those bytes are not UTF-8.
\<close>

datatype proc_result =
  Completed string | CalledProcessError string "exn + string" | RunFailed exn

text \<open>
  \<open>mutagen.File(path)\<close> raises, returns \<open>None\<close>, or returns a file object; the argument of
  \<open>MutagenInfo\<close> is \<open>info.length\<close> when \<open>info\<close> has that attribute.
\<close>

datatype mutagen_result = MutagenRaises exn | MutagenNone | MutagenInfo "pyfloat option"

text \<open>
  The recognition request. \<open>RecognitionConfig\<close> lists \<open>encoding\<close>, \<open>language_code\<close>,
  \<open>alternative_language_codes\<close>, \<open>enable_automatic_punctuation\<close> and
  \<open>enable_word_time_offsets\<close>. A response is the list of its results, each the list of the
  transcripts of its alternatives, best first.
\<close>

datatype audio_encoding = LINEAR16

datatype recognition_config =
  RecognitionConfig audio_encoding string "string list" bool bool

datatype recognition_audio = Content string | Uri string

type_synonym recognize_response = "string list list"

text \<open>
  The answer of \<open>model.generate_content\<close>: reading \<open>response.text\<close> raises or gives the text.
\<close>

type_synonym generation_response = "exn + string"

text \<open>Every call that leaves the process is recorded, in order.\<close>

datatype event =
    Spawn "string list"
  | MutagenFile string
  | OpenRead string
  | Recognize recognition_config recognition_audio
  | StorageClient "string option"
  | GetBucket string
  | CreateBucket string string
  | UploadFromFilename string string string
  | LongRunningRecognize recognition_config recognition_audio
  | OperationResult nat
  | BlobDelete string
  | OsRemove string
  | GenerateContent string
  | Print string

text \<open>
  What the outside answers. An \<open>exn option\<close> is \<open>None\<close> when the call succeeds. The fields
  are \<open>subprocess.run\<close>, the builtin \<open>float\<close>, \<open>json.loads(s)['format']['duration']\<close>,
  \<open>mutagen.File\<close>, \<open>open(p, 'rb').read()\<close>, \<open>client.recognize\<close>, \<open>storage.Client\<close>,
  \<open>get_bucket\<close>, \<open>create_bucket\<close>, \<open>blob.upload_from_filename\<close>,
  \<open>client.long_running_recognize\<close>, \<open>operation.result\<close>, \<open>blob.delete\<close>, \<open>os.remove\<close>,
  \<open>int(time.time())\<close> and \<open>model.generate_content\<close>.
\<close>

record env =
  run :: "string list \<Rightarrow> proc_result"
  float_of_str :: "string \<Rightarrow> exn + pyfloat"
  json_format_duration :: "string \<Rightarrow> exn + string"
  mutagen_file :: "string \<Rightarrow> mutagen_result"
  read_bytes :: "string \<Rightarrow> exn + string"
  recognize :: "recognition_config \<Rightarrow> recognition_audio \<Rightarrow> exn + recognize_response"
  new_storage_client :: "string option \<Rightarrow> exn option"
  get_bucket :: "string \<Rightarrow> exn option"
  create_bucket :: "string \<Rightarrow> string \<Rightarrow> exn option"
  upload_from_filename :: "string \<Rightarrow> string \<Rightarrow> string \<Rightarrow> exn option"
  long_running_recognize :: "recognition_config \<Rightarrow> recognition_audio \<Rightarrow> exn option"
  operation_result :: "recognition_config \<Rightarrow> recognition_audio \<Rightarrow> nat \<Rightarrow> exn + recognize_response"
  blob_delete :: "string \<Rightarrow> exn option"
  os_remove :: "string \<Rightarrow> exn option"
  unix_time :: nat
  generate_content :: "string \<Rightarrow> exn + generation_response"

text \<open>
  The state: the local files and the staged objects that exist, the fields of the
  \<open>SpeechToTextService\<close> instance (\<open>storage_client\<close> tells whether the client was made),
  and the calls made so far.
\<close>

record world =
  files :: "string list"
  blobs :: "string list"
  storage_client :: bool
  bucket_name :: "string option"
  project_id :: "string option"
  trace :: "event list"

definition emit :: "event \<Rightarrow> world \<Rightarrow> world" where
  "emit ev s = s\<lparr>trace := trace s @ [ev]\<rparr>"

text \<open>Sequencing: an exception of the first step skips the rest.\<close>

definition then_do ::
  "world \<times> (exn + 'a) \<Rightarrow> ('a \<Rightarrow> world \<Rightarrow> world \<times> (exn + 'b)) \<Rightarrow> world \<times> (exn + 'b)" where
  "then_do m f = (case m of (s, Inl e) \<Rightarrow> (s, Inl e) | (s, Inr x) \<Rightarrow> f x s)"

text \<open>\<open>os.remove(p)\<close> and \<open>open(p, 'rb').read()\<close>.\<close>

definition remove_file :: "env \<Rightarrow> string \<Rightarrow> world \<Rightarrow> world \<times> (exn + unit)" where
  "remove_file env p s =
     (let s1 = emit (OsRemove p) s in
      if p \<in> set (files s1) then
        (case os_remove env p of
           Some e \<Rightarrow> (s1, Inl e)
         | None \<Rightarrow> (s1\<lparr>files := removeAll p (files s1)\<rparr>, Inr ()))
      else (s1, Inl (Exn (''[Errno 2] No such file or directory: '' @ [CHR 0x27] @ p @ [CHR 0x27]))))"

definition open_read :: "env \<Rightarrow> string \<Rightarrow> world \<Rightarrow> world \<times> (exn + string)" where
  "open_read env p s =
     (let s1 = emit (OpenRead p) s in
      if p \<in> set (files s1) then (s1, read_bytes env p)
      else (s1, Inl (Exn (''[Errno 2] No such file or directory: '' @ [CHR 0x27] @ p @ [CHR 0x27]))))"

text \<open>The clean-up statement \<open>if cond and os.path.exists(p): os.remove(p)\<close>.\<close>

definition remove_if_exists :: "env \<Rightarrow> bool \<Rightarrow> string \<Rightarrow> world \<Rightarrow> world \<times> (exn + unit)" where
  "remove_if_exists env cond p s =
     (if cond \<and> p \<in> set (files s) then remove_file env p s else (s, Inr ()))"

section \<open>services/speech\_to\_text.py\<close>

definition ffmpeg_argv :: "string \<Rightarrow> string \<Rightarrow> string list" where
  "ffmpeg_argv audio_path wav_path =
     [''ffmpeg'', ''-i'', audio_path, ''-ar'', ''16000'', ''-ac'', ''1'', ''-y'', wav_path]"

definition convert_to_wav :: "env \<Rightarrow> string \<Rightarrow> world \<Rightarrow> world \<times> (exn + string)" where
  "convert_to_wav env audio_path s =
     (let file_ext = lower (snd (splitext audio_path)) in
      if file_ext = ''.wav'' then (s, Inr audio_path)
      else
        let wav_path = rsplit1_head (CHR ''.'') audio_path @ ''_converted.wav'';
            s1 = emit (Spawn (ffmpeg_argv audio_path wav_path)) s
        in case run env (ffmpeg_argv audio_path wav_path) of
             Completed out \<Rightarrow> (s1\<lparr>files := List.insert wav_path (files s1)\<rparr>, Inr wav_path)
           | CalledProcessError msg stderr \<Rightarrow>
               (case stderr of
                  Inr err \<Rightarrow> (s1, Inl (Exn (''Failed to convert audio: '' @ err)))
                | Inl e \<Rightarrow> (s1, Inl e))
           | RunFailed e \<Rightarrow> (s1, Inl e))"

definition ffprobe_argv :: "string \<Rightarrow> string list" where
  "ffprobe_argv audio_path =
     [''ffprobe'', ''-v'', ''error'', ''-show_entries'', ''format=duration'',
      ''-of'', ''default=noprint_wrappers=1:nokey=1'', audio_path]"

definition get_audio_duration :: "env \<Rightarrow> string \<Rightarrow> world \<Rightarrow> world \<times> pyfloat" where
  "get_audio_duration env audio_path s =
     (let s1 = emit (Spawn (ffprobe_argv audio_path)) s in
      case run env (ffprobe_argv audio_path) of
        Completed out \<Rightarrow>
          (case float_of_str env (strip out) of
             Inr d \<Rightarrow> (s1, d)
           | Inl e \<Rightarrow> (s1, Finite 0))
      | CalledProcessError msg err \<Rightarrow> (s1, Finite 0)
      | RunFailed e \<Rightarrow> (s1, Finite 0))"

definition setup_gcs_bucket :: "env \<Rightarrow> world \<Rightarrow> world \<times> (exn + string)" where
  "setup_gcs_bucket env s =
     then_do
       (if storage_client s then (s, Inr ())
        else
          (case new_storage_client env (project_id s) of
             Some e \<Rightarrow> (emit (StorageClient (project_id s)) s, Inl e)
           | None \<Rightarrow> ((emit (StorageClient (project_id s)) s)\<lparr>storage_client := True\<rparr>, Inr ())))
       (\<lambda>_ s1.
          let s2 = (if bucket_name s1 = None \<or> bucket_name s1 = Some []
                    then s1\<lparr>bucket_name := Some (py_str (project_id s1) @ ''-audio-transcription'')\<rparr>
                    else s1);
              bucket = py_str (bucket_name s2);
              s3 = emit (GetBucket bucket) s2
          in case get_bucket env bucket of
               None \<Rightarrow> (s3, Inr bucket)
             | Some _ \<Rightarrow>
                 (case create_bucket env bucket ''us-central1'' of
                    None \<Rightarrow> (emit (CreateBucket bucket ''us-central1'') s3, Inr bucket)
                  | Some e \<Rightarrow> (emit (CreateBucket bucket ''us-central1'') s3, Inl e)))"

text \<open>\<open>_upload_to_gcs\<close> returns the URI and the blob, which is known by its name.\<close>

definition upload_to_gcs :: "env \<Rightarrow> string \<Rightarrow> world \<Rightarrow> world \<times> (exn + string \<times> string)" where
  "upload_to_gcs env audio_path s =
     then_do (setup_gcs_bucket env s)
       (\<lambda>bucket s1.
          let filename = basename audio_path;
              blob_name = ''audio/'' @ str_nat (unix_time env) @ ''_'' @ filename;
              s2 = emit (UploadFromFilename bucket blob_name audio_path) s1
          in case upload_from_filename env bucket blob_name audio_path of
               Some e \<Rightarrow> (s2, Inl e)
             | None \<Rightarrow>
                 (s2\<lparr>blobs := List.insert blob_name (blobs s2)\<rparr>,
                  Inr (''gs://'' @ py_str (bucket_name s2) @ ''/'' @ blob_name, blob_name)))"

text \<open>
  \<open>_delete_from_gcs\<close>: nothing for \<open>None\<close>; otherwise \<open>blob.delete()\<close> is called and whatever
  it raises (the object is gone already, or the backend refuses) is dropped.
\<close>

definition delete_from_gcs :: "env \<Rightarrow> string option \<Rightarrow> world \<Rightarrow> world" where
  "delete_from_gcs env blob s =
     (case blob of
        None \<Rightarrow> s
      | Some b \<Rightarrow>
          let s1 = emit (BlobDelete b) s in
          if b \<in> set (blobs s1) \<and> blob_delete env b = None
          then s1\<lparr>blobs := removeAll b (blobs s1)\<rparr>
          else s1)"

text \<open>
  \<open>" ".join(result.alternatives[0].transcript for result in response.results)\<close>: the
  generator raises \<open>IndexError\<close> at the first result without an alternative.
\<close>

fun top_alternatives :: "recognize_response \<Rightarrow> exn + string list" where
  "top_alternatives [] = Inr []"
| "top_alternatives ([] # results) = Inl IndexError"
| "top_alternatives ((transcript # others) # results) =
     (case top_alternatives results of
        Inl e \<Rightarrow> Inl e
      | Inr ts \<Rightarrow> Inr (transcript # ts))"

definition combine_transcripts :: "recognize_response \<Rightarrow> exn + string" where
  "combine_transcripts results =
     (case top_alternatives results of
        Inl e \<Rightarrow> Inl e
      | Inr ts \<Rightarrow> Inr (join '' '' ts))"

text \<open>\<open>transcription if transcription else "No speech detected in audio."\<close>\<close>

definition or_no_speech :: "string \<Rightarrow> string" where
  "or_no_speech transcription =
     (if transcription \<noteq> [] then transcription else ''No speech detected in audio.'')"

definition alternative_language_codes :: "string list" where
  "alternative_language_codes =
     [''uk-UA'', ''ru-RU'', ''es-ES'', ''fr-FR'', ''de-DE'', ''it-IT'', ''pt-PT'',
      ''pl-PL'', ''ja-JP'', ''zh-CN'', ''ko-KR'', ''ar-SA'', ''hi-IN'', ''tr-TR'']"

definition recognition_config :: "string \<Rightarrow> recognition_config" where
  "recognition_config language_code =
     (if language_code = ''auto''
      then RecognitionConfig LINEAR16 ''en-US'' alternative_language_codes True False
      else RecognitionConfig LINEAR16 language_code [] True False)"

text \<open>
  \<open>_transcribe_long_audio\<close>. \<open>long_body\<close> is the \<open>try\<close> block after the upload returned,
  \<open>long_except\<close> the handler; \<open>blob\<close> is \<open>None\<close> in the handler when the upload raised.
\<close>

definition long_body ::
  "env \<Rightarrow> string \<Rightarrow> string \<Rightarrow> string \<Rightarrow> string \<Rightarrow> world \<Rightarrow> world \<times> (exn + string)" where
  "long_body env audio_path language_code gcs_uri blob s =
     (let audio = Uri gcs_uri;
          config = recognition_config language_code;
          s1 = emit (LongRunningRecognize config audio) s
      in case long_running_recognize env config audio of
           Some e \<Rightarrow> (s1, Inl e)
         | None \<Rightarrow>
             then_do
               (emit (OperationResult 300) (emit (Print ''Waiting for transcription to complete...'') s1),
                operation_result env config audio 300)
               (\<lambda>results s2.
                  then_do (s2, combine_transcripts results)
                    (\<lambda>transcription s3.
                       then_do
                         (remove_if_exists env (endswith audio_path ''_converted.wav'') audio_path
                            (delete_from_gcs env (Some blob) s3))
                         (\<lambda>_ s4. (s4, Inr (or_no_speech transcription))))))"

definition long_except ::
  "env \<Rightarrow> string \<Rightarrow> string option \<Rightarrow> exn \<Rightarrow> world \<Rightarrow> world \<times> (exn + string)" where
  "long_except env audio_path blob e s =
     then_do
       (remove_if_exists env (endswith audio_path ''_converted.wav'') audio_path
          (delete_from_gcs env blob s))
       (\<lambda>_ s1. (s1, Inr (''Error during transcription: '' @ str_exn e)))"

definition transcribe_long_audio ::
  "env \<Rightarrow> string \<Rightarrow> string \<Rightarrow> world \<Rightarrow> world \<times> (exn + string)" where
  "transcribe_long_audio env audio_path language_code s =
     (case upload_to_gcs env audio_path s of
        (s1, Inl e) \<Rightarrow> long_except env audio_path None e s1
      | (s1, Inr (gcs_uri, blob)) \<Rightarrow>
          (case long_body env audio_path language_code gcs_uri blob s1 of
             (s2, Inl e) \<Rightarrow> long_except env audio_path (Some blob) e s2
           | (s2, Inr text) \<Rightarrow> (s2, Inr text)))"

text \<open>
  \<open>transcribe_audio\<close>. \<open>short_body\<close> is the \<open>try\<close> block from the \<open>open\<close> on,
  \<open>transcribe_except\<close> the handler; there \<open>wav_path\<close> is \<open>None\<close> when the exception came
  out of \<open>_convert_to_wav\<close>, because the local variable was never assigned, and reading it
  raises \<open>UnboundLocalError\<close> out of the handler.
\<close>

definition short_body ::
  "env \<Rightarrow> string \<Rightarrow> string \<Rightarrow> string \<Rightarrow> world \<Rightarrow> world \<times> (exn + string)" where
  "short_body env audio_path wav_path language_code s =
     then_do (open_read env wav_path s)
       (\<lambda>content s1.
          let audio = Content content;
              config = recognition_config language_code
          in then_do (emit (Recognize config audio) s1, recognize env config audio)
               (\<lambda>results s2.
                  then_do (s2, combine_transcripts results)
                    (\<lambda>transcription s3.
                       then_do (remove_if_exists env (wav_path \<noteq> audio_path) wav_path s3)
                         (\<lambda>_ s4. (s4, Inr (or_no_speech transcription))))))"

definition transcribe_except ::
  "env \<Rightarrow> string \<Rightarrow> string option \<Rightarrow> exn \<Rightarrow> world \<Rightarrow> world \<times> (exn + string)" where
  "transcribe_except env audio_path wav_path e s =
     (case wav_path of
        None \<Rightarrow> (s, Inl (UnboundLocalError ''wav_path''))
      | Some w \<Rightarrow>
          then_do (remove_if_exists env (w \<noteq> audio_path) w s)
            (\<lambda>_ s1. (s1, Inr (''Error during transcription: '' @ str_exn e))))"

definition transcribe_audio ::
  "env \<Rightarrow> string \<Rightarrow> string \<Rightarrow> world \<Rightarrow> world \<times> (exn + string)" where
  "transcribe_audio env audio_path language_code s =
     (case convert_to_wav env audio_path s of
        (s1, Inl e) \<Rightarrow> transcribe_except env audio_path None e s1
      | (s1, Inr wav_path) \<Rightarrow>
          (case (case get_audio_duration env wav_path s1 of
                   (s2, duration) \<Rightarrow>
                     if float_gt duration 55
                     then transcribe_long_audio env wav_path language_code s2
                     else short_body env audio_path wav_path language_code s2) of
             (s3, Inl e) \<Rightarrow> transcribe_except env audio_path (Some wav_path) e s3
           | (s3, Inr text) \<Rightarrow> (s3, Inr text)))"

definition transcribe_audio_long ::
  "env \<Rightarrow> string \<Rightarrow> string \<Rightarrow> world \<Rightarrow> world \<times> (exn + string)" where
  "transcribe_audio_long env audio_path language_code s =
     transcribe_audio env audio_path language_code s"

section \<open>services/audio\_player.py\<close>

definition ffprobe_json_argv :: "string \<Rightarrow> string list" where
  "ffprobe_json_argv audio_path =
     [''ffprobe'', ''-v'', ''error'', ''-show_entries'', ''format=duration'',
      ''-of'', ''json'', audio_path]"

text \<open>The handler of \<open>get_duration\<close>: it prints the exception and returns \<open>0.0\<close>.\<close>

definition duration_except :: "exn \<Rightarrow> world \<Rightarrow> world \<times> pyfloat" where
  "duration_except e s = (emit (Print (''Error getting duration: '' @ str_exn e)) s, Finite 0)"

text \<open>The fallback of \<open>get_duration\<close>: \<open>ffprobe\<close> with JSON output.\<close>

definition ffprobe_json_duration :: "env \<Rightarrow> string \<Rightarrow> world \<Rightarrow> world \<times> pyfloat" where
  "ffprobe_json_duration env audio_path s =
     (let s1 = emit (Spawn (ffprobe_json_argv audio_path)) s in
      case run env (ffprobe_json_argv audio_path) of
        Completed out \<Rightarrow>
          (case json_format_duration env out of
             Inl e \<Rightarrow> duration_except e s1
           | Inr v \<Rightarrow>
               (case float_of_str env v of
                  Inl e \<Rightarrow> duration_except e s1
                | Inr d \<Rightarrow> (s1, d)))
      | CalledProcessError msg err \<Rightarrow> duration_except (Exn msg) s1
      | RunFailed e \<Rightarrow> duration_except e s1)"

definition get_duration :: "env \<Rightarrow> string \<Rightarrow> world \<Rightarrow> world \<times> pyfloat" where
  "get_duration env audio_path s =
     (let s1 = emit (MutagenFile audio_path) s in
      case mutagen_file env audio_path of
        MutagenRaises e \<Rightarrow> duration_except e s1
      | MutagenNone \<Rightarrow> ffprobe_json_duration env audio_path s1
      | MutagenInfo None \<Rightarrow> ffprobe_json_duration env audio_path s1
      | MutagenInfo (Some len) \<Rightarrow> (s1, len))"

section \<open>services/summarizer.py\<close>

definition summary_prompt :: "string \<Rightarrow> string" where
  "summary_prompt transcription =
     [CHR 0x0A] @
     ''Please provide a concise, structured summary of the following audio transcription.'' @
     [CHR 0x0A] @ ''Format the summary with:'' @
     [CHR 0x0A] @ ''- Main Topic: [topic]'' @
     [CHR 0x0A] @ ''- Key Points: [bullet points of main ideas]'' @
     [CHR 0x0A] @ ''- Action Items: [any tasks or actions mentioned, if applicable]'' @
     [CHR 0x0A, CHR 0x0A] @ ''Keep it brief and well-organized.'' @
     [CHR 0x0A, CHR 0x0A] @ ''Transcription:'' @
     [CHR 0x0A] @ transcription @ [CHR 0x0A]"

definition summarize :: "env \<Rightarrow> string \<Rightarrow> world \<Rightarrow> world \<times> string" where
  "summarize env transcription s =
     (if transcription = [] \<or> startswith transcription ''Error'' \<or>
         transcription = ''No speech detected in audio.''
      then (s, ''No summary available.'')
      else
        let prompt = summary_prompt transcription;
            s1 = emit (GenerateContent prompt) s
        in case generate_content env prompt of
             Inl e \<Rightarrow> (s1, ''Error generating summary: '' @ str_exn e)
           | Inr response \<Rightarrow>
               (case response of
                  Inl e \<Rightarrow> (s1, ''Error generating summary: '' @ str_exn e)
                | Inr text \<Rightarrow> (s1, text)))"

definition title_prompt :: "string \<Rightarrow> string" where
  "title_prompt transcription =
     [CHR 0x0A] @ ''Generate a very short title (maximum 5-6 words) for this audio note.'' @
     [CHR 0x0A] @ ''Only return the title, nothing else.'' @
     [CHR 0x0A, CHR 0x0A] @ ''Transcription:'' @
     [CHR 0x0A] @ take 500 transcription @ [CHR 0x0A]"

definition generate_title :: "env \<Rightarrow> string \<Rightarrow> world \<Rightarrow> world \<times> string" where
  "generate_title env transcription s =
     (if transcription = [] \<or> startswith transcription ''Error''
      then (s, ''Untitled Note'')
      else
        let prompt = title_prompt transcription;
            s1 = emit (GenerateContent prompt) s
        in case generate_content env prompt of
             Inl e \<Rightarrow> (s1, ''Untitled Note'')
           | Inr response \<Rightarrow>
               (case response of
                  Inl e \<Rightarrow> (s1, ''Untitled Note'')
                | Inr text \<Rightarrow>
                    let title = remove_char (CHR 0x27) (remove_char (CHR 0x22) (strip text))
                    in (s1, if length title > 50 then take 50 title else title)))"

section \<open>Reading the record of calls\<close>

text \<open>The calls only the staged transport makes, and the calls only the inline one makes.\<close>

fun staged_event :: "event \<Rightarrow> bool" where
  "staged_event (StorageClient project) = True"
| "staged_event (GetBucket b) = True"
| "staged_event (CreateBucket b region) = True"
| "staged_event (UploadFromFilename b n p) = True"
| "staged_event (LongRunningRecognize config audio) = True"
| "staged_event (OperationResult timeout) = True"
| "staged_event (BlobDelete n) = True"
| "staged_event ev = False"

fun inline_event :: "event \<Rightarrow> bool" where
  "inline_event (OpenRead p) = True"
| "inline_event (Recognize config audio) = True"
| "inline_event ev = False"

text \<open>The blobs \<open>blob.delete()\<close> was called on, the command lines run, the prompts sent.\<close>

fun blob_deletes :: "event list \<Rightarrow> string list" where
  "blob_deletes [] = []"
| "blob_deletes (BlobDelete n # evs) = n # blob_deletes evs"
| "blob_deletes (ev # evs) = blob_deletes evs"

fun spawned :: "event list \<Rightarrow> string list list" where
  "spawned [] = []"
| "spawned (Spawn argv # evs) = argv # spawned evs"
| "spawned (ev # evs) = spawned evs"

fun prompts_sent :: "event list \<Rightarrow> string list" where
  "prompts_sent [] = []"
| "prompts_sent (GenerateContent prompt # evs) = prompt # prompts_sent evs"
| "prompts_sent (ev # evs) = prompts_sent evs"

text \<open>
  \<open>emits_only Q s s'\<close>: the record of calls of \<open>s'\<close> is the one of \<open>s\<close> followed by calls that
  all satisfy \<open>Q\<close>.
\<close>

definition emits_only :: "(event \<Rightarrow> bool) \<Rightarrow> world \<Rightarrow> world \<Rightarrow> bool" where
  "emits_only Q s s' =
     (take (length (trace s)) (trace s') = trace s \<and>
      list_all Q (drop (length (trace s)) (trace s')))"

section \<open>Sample environments\<close>

text \<open>
  An outside world in which every call succeeds: the probe reports 30.5 seconds and the
  recognition answers two results. The others differ from it in one answer each.
\<close>

definition sample_float :: "string \<Rightarrow> exn + pyfloat" where
  "sample_float t =
     (if t = ''30.5'' then Inr (Finite 30.5)
      else if t = ''55.0'' then Inr (Finite 55)
      else if t = ''90.0'' then Inr (Finite 90)
      else Inl (Exn ''could not convert string to float''))"

definition env_ok :: env where
  "env_ok = \<lparr>
     run = (\<lambda>argv. Completed ('' 30.5'' @ [CHR 0x0A])),
     float_of_str = sample_float,
     json_format_duration = (\<lambda>out. Inr ''30.5''),
     mutagen_file = (\<lambda>p. MutagenInfo (Some (Finite 30.5))),
     read_bytes = (\<lambda>p. Inr ''RIFF''),
     recognize = (\<lambda>config audio. Inr [[''Hello world'', ''hello word''], [''this is a test'']]),
     new_storage_client = (\<lambda>project. None),
     get_bucket = (\<lambda>b. None),
     create_bucket = (\<lambda>b region. None),
     upload_from_filename = (\<lambda>b n p. None),
     long_running_recognize = (\<lambda>config audio. None),
     operation_result = (\<lambda>config audio timeout. Inr [[''Hello world''], [''this is a test'']]),
     blob_delete = (\<lambda>b. None),
     os_remove = (\<lambda>p. None),
     unix_time = 1700000000,
     generate_content = (\<lambda>prompt. Inr (Inr ('' '' @ [CHR 0x22] @ ''Bob'' @ [CHR 0x27] @ ''s Plan'' @ [CHR 0x22, CHR 0x0A])))\<rparr>"

definition env_long :: env where
  "env_long = env_ok\<lparr>run := (\<lambda>argv. Completed (''90.0'' @ [CHR 0x0A]))\<rparr>"

definition env_boundary :: env where
  "env_boundary = env_ok\<lparr>run := (\<lambda>argv. Completed ''55.0'')\<rparr>"

definition env_ffmpeg_fails :: env where
  "env_ffmpeg_fails =
     env_ok\<lparr>run := (\<lambda>argv. CalledProcessError ''returned non-zero exit status 1.''
                         (Inr ''Invalid data found when processing input''))\<rparr>"

definition env_remove_fails :: env where
  "env_remove_fails = env_long\<lparr>os_remove := (\<lambda>p. Some (Exn ''[Errno 13] Permission denied''))\<rparr>"

definition env_no_metadata :: env where
  "env_no_metadata = env_ok\<lparr>mutagen_file := (\<lambda>p. MutagenNone)\<rparr>"

definition env_backend_down :: env where
  "env_backend_down = env_ok\<lparr>generate_content := (\<lambda>prompt. Inl (Exn ''503 unavailable''))\<rparr>"

definition env_empty_segment :: env where
  "env_empty_segment = env_ok\<lparr>recognize := (\<lambda>config audio. Inr [[[]]])\<rparr>"

definition world0 :: world where
  "world0 = \<lparr>files = [''memo.mp3'', ''memo.wav''], blobs = [], storage_client = False,
     bucket_name = None, project_id = Some ''demo'', trace = []\<rparr>"

section \<open>models/note.py and storage/note_storage.py\<close>

text \<open>The dataclass \<open>Note\<close>. The field \<open>id\<close> is called \<open>id_note\<close> here.\<close>

record Note =
  id_note :: string
  title :: string
  audio_path :: string
  transcription :: string
  summary :: string
  created_at :: string
  duration :: pyfloat

text \<open>
  The notes file: absent, not valid JSON, or a JSON list of notes. \<open>_load_notes\<close> answers
  the empty list in the first two cases; \<open>_save_notes\<close> rewrites the file.
\<close>

datatype notes_file = FileNotFound | JSONDecodeError | NotesJson "Note list"

fun load_notes :: "notes_file \<Rightarrow> Note list" where
  "load_notes (NotesJson ns) = ns"
| "load_notes FileNotFound = []"
| "load_notes JSONDecodeError = []"

definition save_notes :: "Note list \<Rightarrow> notes_file" where
  "save_notes ns = NotesJson ns"

definition get_all_notes :: "notes_file \<Rightarrow> Note list" where
  "get_all_notes f = load_notes f"

text \<open>\<open>get_note_by_id\<close>: the first note with that id, or \<open>None\<close>.\<close>

definition get_note_by_id :: "notes_file \<Rightarrow> string \<Rightarrow> Note option" where
  "get_note_by_id f i = find (\<lambda>n. id_note n = i) (load_notes f)"

text \<open>
  The loop of \<open>save_note\<close>: the first note with the id of the new one is replaced by it and
  the loop breaks; \<open>found\<close> tells whether that happened.
\<close>

fun replace_first :: "Note \<Rightarrow> Note list \<Rightarrow> Note list \<times> bool" where
  "replace_first n [] = ([], False)"
| "replace_first n (existing_note # rest) =
     (if id_note existing_note = id_note n then (n # rest, True)
      else (case replace_first n rest of (rest', found) \<Rightarrow> (existing_note # rest', found)))"

definition save_note :: "notes_file \<Rightarrow> Note \<Rightarrow> notes_file" where
  "save_note f n =
     (case replace_first n (load_notes f) of
        (notes, found) \<Rightarrow> save_notes (if \<not> found then notes @ [n] else notes))"

definition delete_note :: "notes_file \<Rightarrow> string \<Rightarrow> notes_file \<times> bool" where
  "delete_note f i =
     (let notes = load_notes f;
          kept = filter (\<lambda>n. id_note n \<noteq> i) notes
      in if length kept < length notes then (save_notes kept, True) else (f, False))"

text \<open>Two stored versions of one note that differ in \<open>created_at\<close> only.\<close>

definition note_v1 :: Note where
  "note_v1 = \<lparr>id_note = ''n1'', title = ''Memo'', audio_path = ''memo.wav'',
     transcription = ''hello'', summary = ''greeting'',
     created_at = ''2024-01-01 10:00:00'', duration = Finite 3\<rparr>"

definition note_v2 :: Note where
  "note_v2 = note_v1\<lparr>created_at := ''2024-02-02 12:00:00''\<rparr>"

text \<open>A note with another id, and a second stored record with the id of \<open>note_v1\<close>.\<close>

definition note_other :: Note where
  "note_other = note_v1\<lparr>id_note := ''n0'', title := ''Other''\<rparr>"

definition note_dup :: Note where
  "note_dup = note_v1\<lparr>title := ''Duplicate''\<rparr>"

section \<open>The sample environments, field by field\<close>

lemma env_ok_fields [simp]:
  "run env_ok = (\<lambda>argv. Completed ('' 30.5'' @ [CHR 0x0A]))"
  "float_of_str env_ok = sample_float"
  "json_format_duration env_ok = (\<lambda>out. Inr ''30.5'')"
  "mutagen_file env_ok = (\<lambda>p. MutagenInfo (Some (Finite 30.5)))"
  "read_bytes env_ok = (\<lambda>p. Inr ''RIFF'')"
  "recognize env_ok = (\<lambda>config audio. Inr [[''Hello world'', ''hello word''], [''this is a test'']])"
  "new_storage_client env_ok = (\<lambda>project. None)"
  "get_bucket env_ok = (\<lambda>b. None)"
  "create_bucket env_ok = (\<lambda>b region. None)"
  "upload_from_filename env_ok = (\<lambda>b n p. None)"
  "long_running_recognize env_ok = (\<lambda>config audio. None)"
  "operation_result env_ok = (\<lambda>config audio timeout. Inr [[''Hello world''], [''this is a test'']])"
  "blob_delete env_ok = (\<lambda>b. None)"
  "os_remove env_ok = (\<lambda>p. None)"
  "unix_time env_ok = 1700000000"
  "generate_content env_ok = (\<lambda>prompt. Inr (Inr ('' '' @ [CHR 0x22] @ ''Bob'' @ [CHR 0x27] @ ''s Plan'' @ [CHR 0x22, CHR 0x0A])))"
  by (simp_all add: env_ok_def)

lemma env_long_fields [simp]:
  "run env_long = (\<lambda>argv. Completed (''90.0'' @ [CHR 0x0A]))"
  "float_of_str env_long = float_of_str env_ok"
  "json_format_duration env_long = json_format_duration env_ok"
  "mutagen_file env_long = mutagen_file env_ok"
  "read_bytes env_long = read_bytes env_ok"
  "recognize env_long = recognize env_ok"
  "new_storage_client env_long = new_storage_client env_ok"
  "get_bucket env_long = get_bucket env_ok"
  "create_bucket env_long = create_bucket env_ok"
  "upload_from_filename env_long = upload_from_filename env_ok"
  "long_running_recognize env_long = long_running_recognize env_ok"
  "operation_result env_long = operation_result env_ok"
  "blob_delete env_long = blob_delete env_ok"
  "os_remove env_long = os_remove env_ok"
  "unix_time env_long = unix_time env_ok"
  "generate_content env_long = generate_content env_ok"
  by (simp_all add: env_long_def)

lemma env_boundary_fields [simp]:
  "run env_boundary = (\<lambda>argv. Completed ''55.0'')"
  "float_of_str env_boundary = float_of_str env_ok"
  "json_format_duration env_boundary = json_format_duration env_ok"
  "mutagen_file env_boundary = mutagen_file env_ok"
  "read_bytes env_boundary = read_bytes env_ok"
  "recognize env_boundary = recognize env_ok"
  "new_storage_client env_boundary = new_storage_client env_ok"
  "get_bucket env_boundary = get_bucket env_ok"
  "create_bucket env_boundary = create_bucket env_ok"
  "upload_from_filename env_boundary = upload_from_filename env_ok"
  "long_running_recognize env_boundary = long_running_recognize env_ok"
  "operation_result env_boundary = operation_result env_ok"
  "blob_delete env_boundary = blob_delete env_ok"
  "os_remove env_boundary = os_remove env_ok"
  "unix_time env_boundary = unix_time env_ok"
  "generate_content env_boundary = generate_content env_ok"
  by (simp_all add: env_boundary_def)

lemma env_ffmpeg_fails_fields [simp]:
  "run env_ffmpeg_fails = (\<lambda>argv. CalledProcessError ''returned non-zero exit status 1.''
        (Inr ''Invalid data found when processing input''))"
  "float_of_str env_ffmpeg_fails = float_of_str env_ok"
  "json_format_duration env_ffmpeg_fails = json_format_duration env_ok"
  "mutagen_file env_ffmpeg_fails = mutagen_file env_ok"
  "read_bytes env_ffmpeg_fails = read_bytes env_ok"
  "recognize env_ffmpeg_fails = recognize env_ok"
  "new_storage_client env_ffmpeg_fails = new_storage_client env_ok"
  "get_bucket env_ffmpeg_fails = get_bucket env_ok"
  "create_bucket env_ffmpeg_fails = create_bucket env_ok"
  "upload_from_filename env_ffmpeg_fails = upload_from_filename env_ok"
  "long_running_recognize env_ffmpeg_fails = long_running_recognize env_ok"
  "operation_result env_ffmpeg_fails = operation_result env_ok"
  "blob_delete env_ffmpeg_fails = blob_delete env_ok"
  "os_remove env_ffmpeg_fails = os_remove env_ok"
  "unix_time env_ffmpeg_fails = unix_time env_ok"
  "generate_content env_ffmpeg_fails = generate_content env_ok"
  by (simp_all add: env_ffmpeg_fails_def)

lemma env_remove_fails_fields [simp]:
  "run env_remove_fails = run env_long"
  "float_of_str env_remove_fails = float_of_str env_long"
  "json_format_duration env_remove_fails = json_format_duration env_long"
  "mutagen_file env_remove_fails = mutagen_file env_long"
  "read_bytes env_remove_fails = read_bytes env_long"
  "recognize env_remove_fails = recognize env_long"
  "new_storage_client env_remove_fails = new_storage_client env_long"
  "get_bucket env_remove_fails = get_bucket env_long"
  "create_bucket env_remove_fails = create_bucket env_long"
  "upload_from_filename env_remove_fails = upload_from_filename env_long"
  "long_running_recognize env_remove_fails = long_running_recognize env_long"
  "operation_result env_remove_fails = operation_result env_long"
  "blob_delete env_remove_fails = blob_delete env_long"
  "os_remove env_remove_fails = (\<lambda>p. Some (Exn ''[Errno 13] Permission denied''))"
  "unix_time env_remove_fails = unix_time env_long"
  "generate_content env_remove_fails = generate_content env_long"
  by (simp_all add: env_remove_fails_def)

lemma env_no_metadata_fields [simp]:
  "run env_no_metadata = run env_ok"
  "float_of_str env_no_metadata = float_of_str env_ok"
  "json_format_duration env_no_metadata = json_format_duration env_ok"
  "mutagen_file env_no_metadata = (\<lambda>p. MutagenNone)"
  "read_bytes env_no_metadata = read_bytes env_ok"
  "recognize env_no_metadata = recognize env_ok"
  "new_storage_client env_no_metadata = new_storage_client env_ok"
  "get_bucket env_no_metadata = get_bucket env_ok"
  "create_bucket env_no_metadata = create_bucket env_ok"
  "upload_from_filename env_no_metadata = upload_from_filename env_ok"
  "long_running_recognize env_no_metadata = long_running_recognize env_ok"
  "operation_result env_no_metadata = operation_result env_ok"
  "blob_delete env_no_metadata = blob_delete env_ok"
  "os_remove env_no_metadata = os_remove env_ok"
  "unix_time env_no_metadata = unix_time env_ok"
  "generate_content env_no_metadata = generate_content env_ok"
  by (simp_all add: env_no_metadata_def)

lemma env_backend_down_fields [simp]:
  "run env_backend_down = run env_ok"
  "float_of_str env_backend_down = float_of_str env_ok"
  "json_format_duration env_backend_down = json_format_duration env_ok"
  "mutagen_file env_backend_down = mutagen_file env_ok"
  "read_bytes env_backend_down = read_bytes env_ok"
  "recognize env_backend_down = recognize env_ok"
  "new_storage_client env_backend_down = new_storage_client env_ok"
  "get_bucket env_backend_down = get_bucket env_ok"
  "create_bucket env_backend_down = create_bucket env_ok"
  "upload_from_filename env_backend_down = upload_from_filename env_ok"
  "long_running_recognize env_backend_down = long_running_recognize env_ok"
  "operation_result env_backend_down = operation_result env_ok"
  "blob_delete env_backend_down = blob_delete env_ok"
  "os_remove env_backend_down = os_remove env_ok"
  "unix_time env_backend_down = unix_time env_ok"
  "generate_content env_backend_down = (\<lambda>prompt. Inl (Exn ''503 unavailable''))"
  by (simp_all add: env_backend_down_def)

lemma env_empty_segment_fields [simp]:
  "run env_empty_segment = run env_ok"
  "float_of_str env_empty_segment = float_of_str env_ok"
  "json_format_duration env_empty_segment = json_format_duration env_ok"
  "mutagen_file env_empty_segment = mutagen_file env_ok"
  "read_bytes env_empty_segment = read_bytes env_ok"
  "recognize env_empty_segment = (\<lambda>config audio. Inr [[[]]])"
  "new_storage_client env_empty_segment = new_storage_client env_ok"
  "get_bucket env_empty_segment = get_bucket env_ok"
  "create_bucket env_empty_segment = create_bucket env_ok"
  "upload_from_filename env_empty_segment = upload_from_filename env_ok"
  "long_running_recognize env_empty_segment = long_running_recognize env_ok"
  "operation_result env_empty_segment = operation_result env_ok"
  "blob_delete env_empty_segment = blob_delete env_ok"
  "os_remove env_empty_segment = os_remove env_ok"
  "unix_time env_empty_segment = unix_time env_ok"
  "generate_content env_empty_segment = generate_content env_ok"
  by (simp_all add: env_empty_segment_def)

section \<open>The note store\<close>

lemma replace_first_found:
  "snd (replace_first n ns) = (\<exists>m \<in> set ns. id_note m = id_note n)"
  by (induction ns) (auto split: prod.splits)

lemma replace_first_lookup:
  "find (\<lambda>m. id_note m = id_note n) (fst (replace_first n ns)) =
     (if \<exists>m \<in> set ns. id_note m = id_note n then Some n else None)"
  by (induction ns) (auto split: prod.splits)

lemma replace_first_other:
  "i \<noteq> id_note n \<Longrightarrow>
   find (\<lambda>m. id_note m = i) (fst (replace_first n ns)) = find (\<lambda>m. id_note m = i) ns"
  by (induction ns) (auto split: prod.splits)

lemma replace_first_length: "length (fst (replace_first n ns)) = length ns"
  by (induction ns) (auto split: prod.splits)

text \<open>
  C9, as the claim states it, fails: \<open>save_note\<close> stores the note it is given, so a call with
  the id of a stored note and another \<open>created_at\<close> changes the persisted \<open>created_at\<close>.
\<close>

theorem save_note_created_at_counterexample:
  "get_note_by_id (NotesJson [note_v1]) (id_note note_v2) = Some note_v1 \<and>
   get_note_by_id (save_note (NotesJson [note_v1]) note_v2) (id_note note_v2) = Some note_v2 \<and>
   created_at note_v2 \<noteq> created_at note_v1"
  by (simp add: get_note_by_id_def save_note_def save_notes_def note_v1_def note_v2_def)

lemma replace_first_update:
  "m \<in> set ns \<Longrightarrow> id_note m = id_note n \<Longrightarrow>
   fst (replace_first n ns) = ns[length (takeWhile (\<lambda>m. id_note m \<noteq> id_note n) ns) := n]"
  by (induction ns) (auto split: prod.splits)

lemma find_first_index:
  "find P ns = Some old \<Longrightarrow>
   length (takeWhile (\<lambda>m. \<not> P m) ns) < length ns \<and>
   ns ! length (takeWhile (\<lambda>m. \<not> P m) ns) = old \<and> P old"
  by (induction ns) (auto split: if_splits)

lemma before_first_index:
  "j < length (takeWhile (\<lambda>m. \<not> P m) ns) \<Longrightarrow> \<not> P (ns ! j)"
proof -
  assume j: "j < length (takeWhile (\<lambda>m. \<not> P m) ns)"
  then have "takeWhile (\<lambda>m. \<not> P m) ns ! j \<in> set (takeWhile (\<lambda>m. \<not> P m) ns)"
    by (rule nth_mem)
  then have "\<not> P (takeWhile (\<lambda>m. \<not> P m) ns ! j)"
    by (auto dest: set_takeWhileD)
  with j show ?thesis by (simp add: takeWhile_nth)
qed

text \<open>
  C9, amended: when a note with the id of \<open>n\<close> is stored, \<open>save_note\<close> puts \<open>n\<close>, as a whole,
  in the place of the first stored record with that id, and nothing else in the list
  changes: every record before it has another id, every other position keeps its record
  (a later record with the same id included), and no record is added. The record found
  under the id afterwards is \<open>n\<close> itself: its id is the stored one and its \<open>created_at\<close> is
  the one \<open>n\<close> carries, the original one exactly when \<open>n\<close> carries it.
\<close>

theorem save_note_replaces_wholesale:
  assumes "get_note_by_id f (id_note n) = Some old"
  shows "length (takeWhile (\<lambda>m. id_note m \<noteq> id_note n) (get_all_notes f)) < length (get_all_notes f) \<and>
         get_all_notes f ! length (takeWhile (\<lambda>m. id_note m \<noteq> id_note n) (get_all_notes f)) = old \<and>
         (\<forall>j < length (takeWhile (\<lambda>m. id_note m \<noteq> id_note n) (get_all_notes f)).
            id_note (get_all_notes f ! j) \<noteq> id_note n) \<and>
         get_all_notes (save_note f n) =
           (get_all_notes f)
             [length (takeWhile (\<lambda>m. id_note m \<noteq> id_note n) (get_all_notes f)) := n] \<and>
         get_note_by_id (save_note f n) (id_note n) = Some n \<and>
         map_option id_note (get_note_by_id (save_note f n) (id_note n)) = Some (id_note old) \<and>
         map_option created_at (get_note_by_id (save_note f n) (id_note n)) = Some (created_at n) \<and>
         (\<forall>i. i \<noteq> id_note n \<longrightarrow> get_note_by_id (save_note f n) i = get_note_by_id f i) \<and>
         length (get_all_notes (save_note f n)) = length (get_all_notes f)"
proof -
  let ?ns = "load_notes f"
  let ?i = "length (takeWhile (\<lambda>m. id_note m \<noteq> id_note n) ?ns)"
  from assms have old: "old \<in> set ?ns" "id_note old = id_note n"
    by (auto simp: get_note_by_id_def find_Some_iff)
  from assms have "find (\<lambda>m. id_note m = id_note n) ?ns = Some old"
    by (simp add: get_note_by_id_def)
  from find_first_index [OF this] have first: "?i < length ?ns" "?ns ! ?i = old"
    by simp_all
  have before: "\<forall>j < ?i. id_note (?ns ! j) \<noteq> id_note n"
    using before_first_index [of _ "\<lambda>m. id_note m = id_note n" ?ns] by simp
  from old have found: "snd (replace_first n ?ns)"
    by (auto simp: replace_first_found)
  then have saved: "save_note f n = NotesJson (fst (replace_first n ?ns))"
    by (cases "replace_first n ?ns") (simp add: save_note_def save_notes_def)
  have list: "get_all_notes (save_note f n) = ?ns[?i := n]"
    using replace_first_update [OF old] by (simp add: saved get_all_notes_def)
  have hit: "get_note_by_id (save_note f n) (id_note n) = Some n"
    using old by (auto simp: saved get_note_by_id_def replace_first_lookup)
  have others: "\<forall>i. i \<noteq> id_note n \<longrightarrow> get_note_by_id (save_note f n) i = get_note_by_id f i"
    by (simp add: saved get_note_by_id_def replace_first_other)
  have len: "length (get_all_notes (save_note f n)) = length (get_all_notes f)"
    by (simp add: saved get_all_notes_def replace_first_length)
  from first before list hit others len old show ?thesis
    by (simp add: get_all_notes_def)
qed

theorem save_note_replaces_wholesale_witness:
  "get_note_by_id (NotesJson [note_other, note_v1, note_dup]) (id_note note_v2) = Some note_v1 \<and>
   get_all_notes (save_note (NotesJson [note_other, note_v1, note_dup]) note_v2) =
     [note_other, note_v2, note_dup] \<and>
   get_note_by_id (save_note (NotesJson [note_other, note_v1, note_dup]) note_v2) (id_note note_v2) =
     Some note_v2 \<and>
   map_option created_at
     (get_note_by_id (save_note (NotesJson [note_other, note_v1, note_dup]) note_v2) (id_note note_v2))
     = Some ''2024-02-02 12:00:00''"
proof -
  have h: "get_note_by_id (NotesJson [note_other, note_v1, note_dup]) (id_note note_v2) = Some note_v1"
    by (simp add: get_note_by_id_def note_v1_def note_v2_def note_other_def)
  have i: "length (takeWhile (\<lambda>m. id_note m \<noteq> id_note note_v2)
             (get_all_notes (NotesJson [note_other, note_v1, note_dup]))) = 1"
    by (simp add: get_all_notes_def note_v1_def note_v2_def note_other_def)
  from save_note_replaces_wholesale [OF h] h show ?thesis
    by (simp add: i) (simp add: get_all_notes_def note_v2_def)
qed

section \<open>The record of calls only grows\<close>

lemma emits_only_iff:
  "emits_only Q s s' \<longleftrightarrow> (\<exists>new. trace s' = trace s @ new \<and> list_all Q new)"
proof
  assume "emits_only Q s s'"
  then have "trace s' = trace s @ drop (length (trace s)) (trace s')"
    and "list_all Q (drop (length (trace s)) (trace s'))"
    unfolding emits_only_def by (metis append_take_drop_id, simp)
  then show "\<exists>new. trace s' = trace s @ new \<and> list_all Q new" by blast
next
  assume "\<exists>new. trace s' = trace s @ new \<and> list_all Q new"
  then show "emits_only Q s s'" unfolding emits_only_def by auto
qed

lemma emits_only_same: "trace s' = trace s \<Longrightarrow> emits_only Q s s'"
  by (simp add: emits_only_iff)

lemma emits_only_refl: "emits_only Q s s"
  by (simp add: emits_only_iff)

lemma emits_only_trans: "emits_only Q s s1 \<Longrightarrow> emits_only Q s1 s2 \<Longrightarrow> emits_only Q s s2"
  by (auto simp: emits_only_iff)

lemma emits_only_weaken: "emits_only Q s s' \<Longrightarrow> (\<And>ev. Q ev \<Longrightarrow> R ev) \<Longrightarrow> emits_only R s s'"
  by (auto simp: emits_only_iff list_all_iff)

lemma emits_only_then_do:
  assumes "emits_only Q s (fst m)" and "\<And>x s1. emits_only Q s1 (fst (f x s1))"
  shows "emits_only Q s (fst (then_do m f))"
proof (cases m)
  case (Pair s1 r)
  show ?thesis
  proof (cases r)
    case (Inl e)
    with Pair assms(1) show ?thesis by (simp add: then_do_def)
  next
    case (Inr x)
    with Pair assms(1) assms(2) [of s1 x] show ?thesis
      by (auto simp: then_do_def intro: emits_only_trans)
  qed
qed

lemma emits_only_keeps:
  "emits_only (\<lambda>ev. \<not> P ev) s s' \<Longrightarrow> list_ex P (trace s') = list_ex P (trace s)"
  by (auto simp: emits_only_iff list_ex_iff list_all_iff)

lemma emits_only_mono: "emits_only Q s s' \<Longrightarrow> list_ex P (trace s) \<Longrightarrow> list_ex P (trace s')"
  by (auto simp: emits_only_iff list_ex_iff)

text \<open>What each operation may add to the record of calls.\<close>

lemma convert_to_wav_emits:
  "emits_only (\<lambda>ev. \<not> staged_event ev \<and> \<not> inline_event ev) s (fst (convert_to_wav env path s))"
  by (auto simp: emits_only_iff convert_to_wav_def Let_def emit_def
      split: proc_result.splits sum.splits)

lemma get_audio_duration_emits:
  "emits_only (\<lambda>ev. \<not> staged_event ev \<and> \<not> inline_event ev) s (fst (get_audio_duration env path s))"
  by (auto simp: emits_only_iff get_audio_duration_def Let_def emit_def
      split: proc_result.splits sum.splits)

lemma remove_if_exists_emits:
  "emits_only (\<lambda>ev. \<not> staged_event ev \<and> \<not> inline_event ev) s (fst (remove_if_exists env c p s))"
  by (auto simp: emits_only_iff remove_if_exists_def remove_file_def Let_def emit_def
      split: option.splits)

lemma transcribe_except_emits:
  "emits_only (\<lambda>ev. \<not> staged_event ev \<and> \<not> inline_event ev) s (fst (transcribe_except env path w e s))"
proof (cases w)
  case None
  then show ?thesis by (simp add: transcribe_except_def emits_only_refl)
next
  case (Some a)
  then show ?thesis
    by (simp add: transcribe_except_def emits_only_then_do remove_if_exists_emits emits_only_refl)
qed

lemma open_read_emits: "emits_only (\<lambda>ev. \<not> staged_event ev) s (fst (open_read env p s))"
  by (auto simp: emits_only_iff open_read_def Let_def emit_def)

lemma open_read_inline: "list_ex inline_event (trace (fst (open_read env p s)))"
  by (auto simp: open_read_def Let_def emit_def)

lemma remove_if_exists_not_staged:
  "emits_only (\<lambda>ev. \<not> staged_event ev) s (fst (remove_if_exists env c p s))"
  by (rule emits_only_weaken [OF remove_if_exists_emits]) simp

lemma remove_if_exists_not_inline:
  "emits_only (\<lambda>ev. \<not> inline_event ev) s (fst (remove_if_exists env c p s))"
  by (rule emits_only_weaken [OF remove_if_exists_emits]) simp

lemma short_body_rest_emits:
  "emits_only (\<lambda>ev. \<not> staged_event ev) s1
     (fst (then_do (emit (Recognize config audio) s1, r)
        (\<lambda>results s2. then_do (s2, combine_transcripts results)
           (\<lambda>t s3. then_do (remove_if_exists env c w s3) (\<lambda>_ s4. (s4, Inr (or_no_speech t)))))))"
  by (intro emits_only_then_do remove_if_exists_not_staged)
     (auto simp: emits_only_refl emits_only_iff emit_def)

lemma short_body_emits: "emits_only (\<lambda>ev. \<not> staged_event ev) s (fst (short_body env path w l s))"
  unfolding short_body_def Let_def
  by (rule emits_only_then_do [OF open_read_emits short_body_rest_emits])

lemma short_body_inline: "list_ex inline_event (trace (fst (short_body env path w l s)))"
proof -
  have "emits_only (\<lambda>ev. \<not> staged_event ev) (fst (open_read env w s)) (fst (short_body env path w l s))"
    unfolding short_body_def Let_def
    by (rule emits_only_then_do [OF emits_only_refl short_body_rest_emits])
  from emits_only_mono [OF this open_read_inline] show ?thesis .
qed

lemma setup_gcs_bucket_emits:
  "emits_only (\<lambda>ev. \<not> inline_event ev) s (fst (setup_gcs_bucket env s))"
  by (auto simp: emits_only_iff setup_gcs_bucket_def then_do_def Let_def emit_def
      split: option.splits)

lemma setup_gcs_bucket_staged: "list_ex staged_event (trace (fst (setup_gcs_bucket env s)))"
  by (auto simp: setup_gcs_bucket_def then_do_def Let_def emit_def split: option.splits)

lemma upload_rest_emits:
  "emits_only (\<lambda>ev. \<not> inline_event ev) s1
     (fst (let filename = basename p;
               blob_name = ''audio/'' @ str_nat (unix_time env) @ ''_'' @ filename;
               s2 = emit (UploadFromFilename bucket blob_name p) s1
           in case upload_from_filename env bucket blob_name p of
                Some e \<Rightarrow> (s2, Inl e)
              | None \<Rightarrow>
                  (s2\<lparr>blobs := List.insert blob_name (blobs s2)\<rparr>,
                   Inr (''gs://'' @ py_str (bucket_name s2) @ ''/'' @ blob_name, blob_name))))"
  by (auto simp: emits_only_iff Let_def emit_def split: option.splits)

lemma upload_to_gcs_emits: "emits_only (\<lambda>ev. \<not> inline_event ev) s (fst (upload_to_gcs env p s))"
  unfolding upload_to_gcs_def
  by (rule emits_only_then_do [OF setup_gcs_bucket_emits upload_rest_emits])

lemma upload_to_gcs_staged: "list_ex staged_event (trace (fst (upload_to_gcs env p s)))"
proof -
  have "emits_only (\<lambda>ev. \<not> inline_event ev) (fst (setup_gcs_bucket env s)) (fst (upload_to_gcs env p s))"
    unfolding upload_to_gcs_def
    by (rule emits_only_then_do [OF emits_only_refl upload_rest_emits])
  from emits_only_mono [OF this setup_gcs_bucket_staged] show ?thesis .
qed

lemma delete_from_gcs_emits: "emits_only (\<lambda>ev. \<not> inline_event ev) s (delete_from_gcs env b s)"
  by (auto simp: emits_only_iff delete_from_gcs_def Let_def emit_def split: option.splits)

lemma cleanup_emits:
  "emits_only (\<lambda>ev. \<not> inline_event ev) s (fst (remove_if_exists env c p (delete_from_gcs env b s)))"
  by (rule emits_only_trans [OF delete_from_gcs_emits remove_if_exists_not_inline])

lemma long_body_emits:
  "emits_only (\<lambda>ev. \<not> inline_event ev) s (fst (long_body env p l uri b s))"
proof (cases "long_running_recognize env (recognition_config l) (Uri uri)")
  case (Some e)
  then show ?thesis
    by (simp add: long_body_def Let_def emits_only_iff emit_def)
next
  case None
  have first: "emits_only (\<lambda>ev. \<not> inline_event ev) s
      (emit (OperationResult 300) (emit (Print ''Waiting for transcription to complete...'')
         (emit (LongRunningRecognize (recognition_config l) (Uri uri)) s)))"
    by (simp add: emits_only_iff emit_def)
  show ?thesis
    unfolding long_body_def Let_def using None
    by (simp only: option.case)
       (intro emits_only_then_do cleanup_emits, auto simp: first emits_only_refl)
qed

lemma long_except_emits:
  "emits_only (\<lambda>ev. \<not> inline_event ev) s (fst (long_except env p b e s))"
  unfolding long_except_def
  by (intro emits_only_then_do cleanup_emits) (simp add: emits_only_refl)

lemma transcribe_long_audio_from_upload:
  "emits_only (\<lambda>ev. \<not> inline_event ev) (fst (upload_to_gcs env p s))
     (fst (transcribe_long_audio env p l s))"
proof (cases "upload_to_gcs env p s")
  case (Pair s1 r)
  show ?thesis
  proof (cases r)
    case (Inl e)
    with Pair show ?thesis by (simp add: transcribe_long_audio_def long_except_emits)
  next
    case (Inr ub)
    obtain uri b where ub: "ub = (uri, b)" by (cases ub)
    obtain s2 r2 where body: "long_body env p l uri b s1 = (s2, r2)"
      by (cases "long_body env p l uri b s1")
    from long_body_emits [of s1 env p l uri b] body
    have step: "emits_only (\<lambda>ev. \<not> inline_event ev) s1 s2" by simp
    show ?thesis
    proof (cases r2)
      case failed: (Inl e)
      have "emits_only (\<lambda>ev. \<not> inline_event ev) s1 (fst (long_except env p (Some b) e s2))"
        by (rule emits_only_trans [OF step long_except_emits])
      with Pair Inr ub body failed show ?thesis
        by (simp add: transcribe_long_audio_def)
    next
      case returned: (Inr out)
      with Pair Inr ub body step show ?thesis
        by (simp add: transcribe_long_audio_def)
    qed
  qed
qed

lemma transcribe_long_audio_emits:
  "emits_only (\<lambda>ev. \<not> inline_event ev) s (fst (transcribe_long_audio env p l s))"
  by (rule emits_only_trans [OF upload_to_gcs_emits transcribe_long_audio_from_upload])

lemma transcribe_long_audio_staged:
  "list_ex staged_event (trace (fst (transcribe_long_audio env p l s)))"
  by (rule emits_only_mono [OF transcribe_long_audio_from_upload upload_to_gcs_staged])

section \<open>Choosing the transport\<close>

lemma float_le_not_gt: "float_le d r \<Longrightarrow> \<not> float_gt d r"
  by (cases d) auto

lemma transcribe_audio_after_probe:
  assumes conv: "convert_to_wav env path s = (s1, Inr wav)"
      and probe: "get_audio_duration env wav s1 = (s2, d)"
  shows "transcribe_audio env path lang s =
           (case (if float_gt d 55 then transcribe_long_audio env wav lang s2
                  else short_body env path wav lang s2) of
              (s3, Inl e) \<Rightarrow> transcribe_except env path (Some wav) e s3
            | (s3, Inr out) \<Rightarrow> (s3, Inr out))"
  by (simp add: transcribe_audio_def conv probe)

lemma guarded_keeps:
  assumes "emits_only Q s s3"
      and "\<And>e. emits_only Q s3 (fst (transcribe_except env path w e s3))"
  shows "emits_only Q s
           (fst (case (s3, r) of
                   (s3, Inl e) \<Rightarrow> transcribe_except env path w e s3
                 | (s3, Inr out) \<Rightarrow> (s3, Inr out)))"
  using assms by (cases r) (auto intro: emits_only_trans)


lemma get_audio_duration_value:
  "snd (get_audio_duration env p s) =
     (case run env (ffprobe_argv p) of
        Completed out \<Rightarrow> (case float_of_str env (strip out) of Inr d \<Rightarrow> d | Inl e \<Rightarrow> Finite 0)
      | CalledProcessError msg err \<Rightarrow> Finite 0
      | RunFailed e \<Rightarrow> Finite 0)"
  by (simp add: get_audio_duration_def Let_def split: proc_result.splits sum.splits)

lemmas string_defs = splitext_def rfind_def rsplit1_head_def lower_def lower_char_def
  strip_def isspace_def basename_def endswith_def sample_float_def

text \<open>
  C2: once the conversion has returned \<open>wav\<close> and the probe has returned \<open>d\<close>, and no transport
  call was recorded before the invocation, \<open>transcribe_audio\<close> takes the inline path (it
  opens the file, and makes no storage or long-running call) whenever \<open>d \<le> 55\<close>, and the
  staged path (a storage call is made, and the file is never opened for an inline request)
  exactly when \<open>d > 55\<close>. A probe whose process does not complete returns \<open>0.0\<close>, which is
  routed inline.
\<close>

theorem transport_selection:
  assumes conv: "convert_to_wav env path s = (s1, Inr wav)"
      and probe: "get_audio_duration env wav s1 = (s2, d)"
      and fresh: "\<not> list_ex staged_event (trace s) \<and> \<not> list_ex inline_event (trace s)"
  shows "(float_le d 55 \<longrightarrow>
            list_ex inline_event (trace (fst (transcribe_audio env path lang s))) \<and>
            \<not> list_ex staged_event (trace (fst (transcribe_audio env path lang s)))) \<and>
         (list_ex staged_event (trace (fst (transcribe_audio env path lang s))) \<longleftrightarrow> float_gt d 55) \<and>
         (list_ex inline_event (trace (fst (transcribe_audio env path lang s))) \<longleftrightarrow> \<not> float_gt d 55) \<and>
         ((\<forall>out. run env (ffprobe_argv wav) \<noteq> Completed out) \<longrightarrow>
            d = Finite 0 \<and> \<not> float_gt d 55)"
proof -
  let ?s' = "fst (transcribe_audio env path lang s)"
  let ?quiet = "\<lambda>ev. \<not> staged_event ev \<and> \<not> inline_event ev"
  have "emits_only ?quiet s s1"
    using convert_to_wav_emits [of s env path] conv by simp
  moreover have "emits_only ?quiet s1 s2"
    using get_audio_duration_emits [of s1 env wav] probe by simp
  ultimately have pre: "emits_only ?quiet s s2"
    by (rule emits_only_trans)
  have fresh2: "\<not> list_ex staged_event (trace s2)" "\<not> list_ex inline_event (trace s2)"
    using fresh emits_only_keeps [OF emits_only_weaken [OF pre], of staged_event]
      emits_only_keeps [OF emits_only_weaken [OF pre], of inline_event] by auto
  have handler_s: "\<And>e s3. emits_only (\<lambda>ev. \<not> staged_event ev) s3 (fst (transcribe_except env path (Some wav) e s3))"
    by (rule emits_only_weaken [OF transcribe_except_emits]) simp
  have handler_i: "\<And>e s3. emits_only (\<lambda>ev. \<not> inline_event ev) s3 (fst (transcribe_except env path (Some wav) e s3))"
    by (rule emits_only_weaken [OF transcribe_except_emits]) simp
  have long: "list_ex staged_event (trace ?s') \<and> \<not> list_ex inline_event (trace ?s')" if gt: "float_gt d 55"
  proof -
    obtain s3 r where run: "transcribe_long_audio env wav lang s2 = (s3, r)"
      by (cases "transcribe_long_audio env wav lang s2")
    have eq: "transcribe_audio env path lang s =
        (case (s3, r) of (s3, Inl e) \<Rightarrow> transcribe_except env path (Some wav) e s3
         | (s3, Inr out) \<Rightarrow> (s3, Inr out))"
      by (simp add: transcribe_audio_after_probe [OF conv probe] gt run)
    have st: "list_ex staged_event (trace s3)"
      using transcribe_long_audio_staged [of env wav lang s2] run by simp
    have "emits_only (\<lambda>ev. \<not> inline_event ev) s2 s3"
      using transcribe_long_audio_emits [of s2 env wav lang] run by simp
    then have "emits_only (\<lambda>ev. \<not> inline_event ev) s2 ?s'"
      unfolding eq by (rule guarded_keeps) (rule handler_i)
    then have "\<not> list_ex inline_event (trace ?s')"
      using fresh2 emits_only_keeps by blast
    moreover have "emits_only (\<lambda>ev. \<not> inline_event ev) s3 ?s'"
      unfolding eq by (rule guarded_keeps [OF emits_only_refl]) (rule handler_i)
    then have "list_ex staged_event (trace ?s')"
      using st by (rule emits_only_mono)
    ultimately show ?thesis by simp
  qed
  have short: "list_ex inline_event (trace ?s') \<and> \<not> list_ex staged_event (trace ?s')" if le: "\<not> float_gt d 55"
  proof -
    obtain s3 r where run: "short_body env path wav lang s2 = (s3, r)"
      by (cases "short_body env path wav lang s2")
    have eq: "transcribe_audio env path lang s =
        (case (s3, r) of (s3, Inl e) \<Rightarrow> transcribe_except env path (Some wav) e s3
         | (s3, Inr out) \<Rightarrow> (s3, Inr out))"
      by (simp add: transcribe_audio_after_probe [OF conv probe] le run)
    have st: "list_ex inline_event (trace s3)"
      using short_body_inline [of env path wav lang s2] run by simp
    have "emits_only (\<lambda>ev. \<not> staged_event ev) s2 s3"
      using short_body_emits [of s2 env path wav lang] run by simp
    then have "emits_only (\<lambda>ev. \<not> staged_event ev) s2 ?s'"
      unfolding eq by (rule guarded_keeps) (rule handler_s)
    then have "\<not> list_ex staged_event (trace ?s')"
      using fresh2 emits_only_keeps by blast
    moreover have "emits_only (\<lambda>ev. \<not> staged_event ev) s3 ?s'"
      unfolding eq by (rule guarded_keeps [OF emits_only_refl]) (rule handler_s)
    then have "list_ex inline_event (trace ?s')"
      using st by (rule emits_only_mono)
    ultimately show ?thesis by simp
  qed
  have failopen: "d = Finite 0" if "\<forall>out. run env (ffprobe_argv wav) \<noteq> Completed out"
    using that probe
    by (cases "run env (ffprobe_argv wav)") (auto simp: get_audio_duration_def Let_def)
  from long short failopen float_le_not_gt [of d 55] show ?thesis
    by (cases "float_gt d 55") auto
qed

theorem transport_selection_witness:
  "list_ex inline_event (trace (fst (transcribe_audio env_boundary ''memo.mp3'' ''auto'' world0))) \<and>
   \<not> list_ex staged_event (trace (fst (transcribe_audio env_boundary ''memo.mp3'' ''auto'' world0))) \<and>
   list_ex staged_event (trace (fst (transcribe_audio env_long ''memo.mp3'' ''auto'' world0))) \<and>
   \<not> list_ex inline_event (trace (fst (transcribe_audio env_long ''memo.mp3'' ''auto'' world0)))"
proof -
  have fresh: "\<not> list_ex staged_event (trace world0) \<and> \<not> list_ex inline_event (trace world0)"
    by (simp add: world0_def)
  have c1: "snd (convert_to_wav env_boundary ''memo.mp3'' world0) = Inr ''memo_converted.wav''"
    by (simp add: convert_to_wav_def Let_def string_defs)
  have conv1: "convert_to_wav env_boundary ''memo.mp3'' world0 =
      (fst (convert_to_wav env_boundary ''memo.mp3'' world0), Inr ''memo_converted.wav'')"
    using c1 by (metis prod.collapse)
  have p1: "snd (get_audio_duration env_boundary ''memo_converted.wav''
      (fst (convert_to_wav env_boundary ''memo.mp3'' world0))) = Finite 55"
    by (simp add: get_audio_duration_value string_defs)
  have probe1: "get_audio_duration env_boundary ''memo_converted.wav''
      (fst (convert_to_wav env_boundary ''memo.mp3'' world0)) =
      (fst (get_audio_duration env_boundary ''memo_converted.wav''
         (fst (convert_to_wav env_boundary ''memo.mp3'' world0))), Finite 55)"
    using p1 by (metis prod.collapse)
  have c2: "snd (convert_to_wav env_long ''memo.mp3'' world0) = Inr ''memo_converted.wav''"
    by (simp add: convert_to_wav_def Let_def string_defs)
  have conv2: "convert_to_wav env_long ''memo.mp3'' world0 =
      (fst (convert_to_wav env_long ''memo.mp3'' world0), Inr ''memo_converted.wav'')"
    using c2 by (metis prod.collapse)
  have p2: "snd (get_audio_duration env_long ''memo_converted.wav''
      (fst (convert_to_wav env_long ''memo.mp3'' world0))) = Finite 90"
    by (simp add: get_audio_duration_value string_defs)
  have probe2: "get_audio_duration env_long ''memo_converted.wav''
      (fst (convert_to_wav env_long ''memo.mp3'' world0)) =
      (fst (get_audio_duration env_long ''memo_converted.wav''
         (fst (convert_to_wav env_long ''memo.mp3'' world0))), Finite 90)"
    using p2 by (metis prod.collapse)
  from transport_selection [OF conv1 probe1 fresh, of "''auto''"]
       transport_selection [OF conv2 probe2 fresh, of "''auto''"]
  show ?thesis by simp
qed

section \<open>Paths and their extensions\<close>

lemma rfind_lower_bound: "- 1 \<le> rfind c s"
proof -
  have "length (takeWhile (\<lambda>x. x \<noteq> c) (rev s)) \<le> length s"
    using length_takeWhile_le [of "\<lambda>x. x \<noteq> c" "rev s"] by simp
  then show ?thesis by (simp add: rfind_def)
qed

lemma rfind_member: "0 \<le> rfind c s \<Longrightarrow> c \<in> set s"
  by (simp add: rfind_def split: if_splits)

lemma takeWhile_stops: "c \<in> set xs \<Longrightarrow> length (takeWhile (\<lambda>x. x \<noteq> c) xs) < length xs"
  by (induction xs) auto

lemma before_last_occurrence:
  assumes "c \<in> set xs"
  shows "rev (tl (dropWhile (\<lambda>x. x \<noteq> c) (rev xs))) =
         take (length xs - 1 - length (takeWhile (\<lambda>x. x \<noteq> c) (rev xs))) xs"
proof -
  let ?P = "\<lambda>x. x \<noteq> c"
  let ?tw = "takeWhile ?P (rev xs)"
  let ?dw = "dropWhile ?P (rev xs)"
  from assms have "?dw \<noteq> []"
    by auto
  then obtain d t where dw: "?dw = d # t" by (cases ?dw) auto
  have "rev xs = ?tw @ ?dw" by simp
  then have "rev xs = ?tw @ d # t" using dw by simp
  then have "rev (rev xs) = rev (?tw @ d # t)" by (rule arg_cong)
  then have xs: "xs = rev t @ d # rev ?tw" by simp
  have len: "length xs = length t + 1 + length ?tw"
    using arg_cong [OF xs, of length] by simp
  have "take (length t) xs = rev t"
    using arg_cong [OF xs, of "take (length t)"] by simp
  moreover have "length xs - 1 - length ?tw = length t" using len by simp
  ultimately show ?thesis using dw by simp
qed

lemma rsplit_is_splitext_root:
  assumes "snd (splitext p) \<noteq> []"
  shows "rsplit1_head (CHR ''.'') p = fst (splitext p)"
proof -
  let ?dot = "rfind (CHR ''.'') p"
  from assms have gt: "?dot > rfind (CHR ''/'') p" and root: "fst (splitext p) = take (nat ?dot) p"
    by (auto simp: splitext_def Let_def split: if_splits)
  from gt rfind_lower_bound [of "CHR ''/''" p] have "0 \<le> ?dot" by simp
  then have mem: "CHR ''.'' \<in> set p" by (rule rfind_member)
  have short: "length (takeWhile (\<lambda>x. x \<noteq> CHR ''.'') (rev p)) < length p"
    using mem takeWhile_stops [of "CHR ''.''" "rev p"] by simp
  have "nat ?dot = length p - 1 - length (takeWhile (\<lambda>x. x \<noteq> CHR ''.'') (rev p))"
    using mem short by (simp add: rfind_def)
  with before_last_occurrence [OF mem] root mem show ?thesis
    by (simp add: rsplit1_head_def)
qed



section \<open>The pipeline on the sample environments\<close>

lemmas model_defs = transcribe_audio_def transcribe_except_def short_body_def transcribe_long_audio_def
  long_body_def long_except_def upload_to_gcs_def setup_gcs_bucket_def delete_from_gcs_def
  get_audio_duration_def convert_to_wav_def remove_if_exists_def remove_file_def open_read_def
  then_do_def emit_def ffmpeg_argv_def ffprobe_argv_def combine_transcripts_def or_no_speech_def
  recognition_config_def Let_def world0_def str_nat.simps


text \<open>
  C1 (what the code does at the failing input): \<open>ffmpeg\<close> exits with a non-zero status on
  \<open>memo.mp3\<close>. \<open>_convert_to_wav\<close> raises inside the \<open>try\<close> block before \<open>wav_path\<close> is
  assigned, the handler reads \<open>wav_path\<close>, and \<open>transcribe_audio\<close> raises
  \<open>UnboundLocalError\<close> to its caller instead of returning the error text.
\<close>

theorem convert_failure_escapes:
  "transcribe_audio env_ffmpeg_fails ''memo.mp3'' ''auto'' world0 =
     (emit (Spawn (ffmpeg_argv ''memo.mp3'' ''memo_converted.wav'')) world0,
      Inl (UnboundLocalError ''wav_path''))"
  by (simp add: model_defs string_defs)


text \<open>
  C3 (what the code does at the failing input): a 90 second recording is converted, staged
  and recognised, and \<open>os.remove\<close> of the converted file raises. The \<open>try\<close> block of
  \<open>_transcribe_long_audio\<close> has deleted the staged object by then, its handler calls
  \<open>blob.delete()\<close> a second time, the converted file stays, and the exception of the
  handler's own \<open>os.remove\<close> reaches the caller of \<open>transcribe_audio\<close>.
\<close>

theorem staged_object_deleted_twice:
  "blob_deletes (trace (fst (transcribe_audio env_remove_fails ''memo.mp3'' ''auto'' world0))) =
     [''audio/1700000000_memo_converted.wav'', ''audio/1700000000_memo_converted.wav''] \<and>
   ''memo_converted.wav'' \<in> set (files (fst (transcribe_audio env_remove_fails ''memo.mp3'' ''auto'' world0))) \<and>
   snd (transcribe_audio env_remove_fails ''memo.mp3'' ''auto'' world0) =
     Inl (Exn ''[Errno 13] Permission denied'')"
  by (simp add: model_defs string_defs)


section \<open>The deprecated entry point\<close>

text \<open>
  C10: \<open>transcribe_audio_long\<close> returns what \<open>transcribe_audio\<close> returns on the same
  arguments, and leaves the same state behind.
\<close>

theorem deprecated_entry_point_equivalent:
  "transcribe_audio_long env path lang s = transcribe_audio env path lang s"
  by (simp add: transcribe_audio_long_def)

section \<open>The summarizer\<close>

lemma prompts_sent_append: "prompts_sent (xs @ ys) = prompts_sent xs @ prompts_sent ys"
  by (induction xs rule: prompts_sent.induct) simp_all

lemma startswith_append: "startswith (p @ t) p"
  by (simp add: startswith_def)


text \<open>
  C5: on an empty input, an input that starts with \<open>Error\<close>, and the no-speech sentinel,
  \<open>summarize\<close> returns \<open>No summary available.\<close> and leaves the state as it was, so no prompt
  is sent to the backend. On every other input for which \<open>generate_content\<close> raises (or
  reading the text of its response raises), it returns \<open>Error generating summary: \<close>
  followed by the message of the exception, after exactly one prompt.
\<close>

theorem summarize_sentinels:
  "(t = [] \<or> startswith t ''Error'' \<or> t = ''No speech detected in audio.'' \<longrightarrow>
      summarize env t s = (s, ''No summary available.'') \<and>
      prompts_sent (trace (fst (summarize env t s))) = prompts_sent (trace s)) \<and>
   (\<not> (t = [] \<or> startswith t ''Error'' \<or> t = ''No speech detected in audio.'') \<and>
    (generate_content env (summary_prompt t) = Inl e \<or>
     generate_content env (summary_prompt t) = Inr (Inl e)) \<longrightarrow>
      snd (summarize env t s) = ''Error generating summary: '' @ str_exn e \<and>
      startswith (snd (summarize env t s)) ''Error generating summary: '' \<and>
      prompts_sent (trace (fst (summarize env t s))) = prompts_sent (trace s) @ [summary_prompt t])"
proof (intro conjI impI)
  assume "t = [] \<or> startswith t ''Error'' \<or> t = ''No speech detected in audio.''"
  then show short: "summarize env t s = (s, ''No summary available.'')"
    unfolding summarize_def by (simp only: if_True)
  then show "prompts_sent (trace (fst (summarize env t s))) = prompts_sent (trace s)"
    by simp
next
  assume a: "\<not> (t = [] \<or> startswith t ''Error'' \<or> t = ''No speech detected in audio.'') \<and>
    (generate_content env (summary_prompt t) = Inl e \<or>
     generate_content env (summary_prompt t) = Inr (Inl e))"
  then have run: "summarize env t s =
      (emit (GenerateContent (summary_prompt t)) s, ''Error generating summary: '' @ str_exn e)"
    unfolding summarize_def Let_def by (auto simp only: if_False sum.case)
  show "snd (summarize env t s) = ''Error generating summary: '' @ str_exn e"
    by (simp only: run snd_conv)
  show "startswith (snd (summarize env t s)) ''Error generating summary: ''"
    by (simp only: run snd_conv startswith_append)
  show "prompts_sent (trace (fst (summarize env t s))) = prompts_sent (trace s) @ [summary_prompt t]"
    by (simp add: run emit_def prompts_sent_append)
qed


theorem summarize_sentinels_witness:
  "summarize env_ok [] world0 = (world0, ''No summary available.'') \<and>
   summarize env_ok ''Error during transcription: x'' world0 = (world0, ''No summary available.'') \<and>
   summarize env_ok ''No speech detected in audio.'' world0 = (world0, ''No summary available.'') \<and>
   snd (summarize env_backend_down ''hello'' world0) = ''Error generating summary: 503 unavailable'' \<and>
   prompts_sent (trace (fst (summarize env_backend_down ''hello'' world0))) = [summary_prompt ''hello'']"
  using summarize_sentinels [of "[]" env_ok world0]
    summarize_sentinels [of "''Error during transcription: x''" env_ok world0]
    summarize_sentinels [of "''No speech detected in audio.''" env_ok world0]
    summarize_sentinels [of "''hello''" env_backend_down world0 "Exn ''503 unavailable''"]
  by (simp add: startswith_def world0_def)

lemma length_remove_char: "length (remove_char c t) \<le> length t"
  by (simp add: remove_char_def)

lemma remove_char_notin: "c \<notin> set (remove_char c t)"
  by (simp add: remove_char_def)

lemma remove_char_keeps: "x \<notin> set t \<Longrightarrow> x \<notin> set (remove_char c t)"
  by (simp add: remove_char_def)

lemma title_text_clean:
  "CHR 0x22 \<notin> set (remove_char (CHR 0x27) (remove_char (CHR 0x22) t)) \<and>
   CHR 0x27 \<notin> set (remove_char (CHR 0x27) (remove_char (CHR 0x22) t))"
  by (simp add: remove_char_def)

lemma notin_take: "x \<notin> set t \<Longrightarrow> x \<notin> set (take n t)"
  by (auto dest: in_set_takeD)


text \<open>
  C6: the title \<open>generate_title\<close> returns has at most 50 characters and contains neither a
  double quote nor a single quote, for every input and every answer of the backend; and
  when the input is empty or starts with \<open>Error\<close>, or the backend call raises (or reading
  the text of its response raises), the title is \<open>Untitled Note\<close>.
\<close>

theorem generate_title_bounded:
  "length (snd (generate_title env t s)) \<le> 50 \<and>
   CHR 0x22 \<notin> set (snd (generate_title env t s)) \<and>
   CHR 0x27 \<notin> set (snd (generate_title env t s)) \<and>
   (t = [] \<or> startswith t ''Error'' \<or>
    (\<exists>e. generate_content env (title_prompt t) = Inl e \<or>
         generate_content env (title_prompt t) = Inr (Inl e)) \<longrightarrow>
      snd (generate_title env t s) = ''Untitled Note'')"
  by (auto simp: generate_title_def Let_def title_text_clean notin_take split: sum.splits)

theorem generate_title_bounded_witness:
  "length (snd (generate_title env_ok ''hello'' world0)) \<le> 50 \<and>
   CHR 0x27 \<notin> set (snd (generate_title env_ok ''hello'' world0)) \<and>
   snd (generate_title env_ok [] world0) = ''Untitled Note'' \<and>
   snd (generate_title env_ok ''Error during transcription: x'' world0) = ''Untitled Note'' \<and>
   snd (generate_title env_backend_down ''hello'' world0) = ''Untitled Note''"
  using generate_title_bounded [of env_ok "''hello''" world0]
    generate_title_bounded [of env_ok "[]" world0]
    generate_title_bounded [of env_ok "''Error during transcription: x''" world0]
    generate_title_bounded [of env_backend_down "''hello''" world0]
  by (simp add: startswith_def)

section \<open>Assembling the transcript\<close>

lemma top_alternatives_all:
  "list_all (\<lambda>alternatives. alternatives \<noteq> []) results \<Longrightarrow>
   top_alternatives results = Inr (map hd results)"
  by (induction results rule: top_alternatives.induct) simp_all

lemma top_alternatives_missing:
  "\<not> list_all (\<lambda>alternatives. alternatives \<noteq> []) results \<Longrightarrow>
   top_alternatives results = Inl IndexError"
  by (induction results rule: top_alternatives.induct) (auto split: sum.splits)

lemma combine_transcripts_all:
  "list_all (\<lambda>alternatives. alternatives \<noteq> []) results \<Longrightarrow>
   combine_transcripts results = Inr (join '' '' (map hd results))"
  by (simp add: combine_transcripts_def top_alternatives_all)

lemma or_no_speech_nonempty: "or_no_speech t \<noteq> []"
  by (simp add: or_no_speech_def)

lemma files_delete_from_gcs: "files (delete_from_gcs env b s) = files s"
  by (simp add: delete_from_gcs_def Let_def emit_def split: option.splits)

lemma remove_if_exists_ok:
  "\<not> c \<or> os_remove env p = None \<Longrightarrow> snd (remove_if_exists env c p s) = Inr ()"
  by (auto simp: remove_if_exists_def remove_file_def Let_def emit_def)

lemma then_do_pair [simp]:
  "then_do (s, Inr x) f = f x s"
  "then_do (s, Inl e) f = (s, Inl e)"
  by (simp_all add: then_do_def)

lemma then_do_return: "snd m = Inr x \<Longrightarrow> snd (then_do m (\<lambda>_ s. (s, Inr y))) = Inr y"
  by (cases m) simp

lemma short_body_returns:
  assumes "list_all (\<lambda>alternatives. alternatives \<noteq> []) results"
      and "w \<in> set (files s)" and "read_bytes env w = Inr content"
      and "recognize env (recognition_config l) (Content content) = Inr results"
      and "w = p \<or> os_remove env w = None"
  shows "snd (short_body env p w l s) = Inr (or_no_speech (join '' '' (map hd results)))"
proof -
  have rm: "\<And>s3. snd (remove_if_exists env (w \<noteq> p) w s3) = Inr ()"
    using assms(5) by (intro remove_if_exists_ok) auto
  have "open_read env w s = (emit (OpenRead w) s, Inr content)"
    using assms(2,3) by (simp add: open_read_def Let_def emit_def)
  then show ?thesis
    using assms(1,4) rm
    by (simp add: short_body_def Let_def combine_transcripts_all then_do_return)
qed

lemma long_body_returns:
  assumes "list_all (\<lambda>alternatives. alternatives \<noteq> []) results"
      and "long_running_recognize env (recognition_config l) (Uri uri) = None"
      and "operation_result env (recognition_config l) (Uri uri) 300 = Inr results"
      and "\<not> endswith w ''_converted.wav'' \<or> os_remove env w = None"
  shows "snd (long_body env w l uri b s) = Inr (or_no_speech (join '' '' (map hd results)))"
proof -
  have rm: "\<And>s3. snd (remove_if_exists env (endswith w ''_converted.wav'') w s3) = Inr ()"
    using assms(4) by (intro remove_if_exists_ok) auto
  show ?thesis
    using assms(1,2,3) rm
    by (simp add: long_body_def Let_def combine_transcripts_all then_do_return)
qed


lemma join_empty_iff: "sep \<noteq> [] \<Longrightarrow> join sep ts = [] \<longleftrightarrow> ts = [] \<or> ts = [[]]"
  by (induction sep ts rule: join.induct) simp_all

text \<open>
  C4, amended: for every response in which each result has an alternative, the assembled
  transcript is the best alternatives of the results, in order, joined by single spaces.
  That text is empty exactly when there is no result, or one result only whose best
  alternative is the empty text. What is returned is the assembled text, unless it is
  empty, and then exactly the sentinel \<open>No speech detected in audio.\<close>; the empty string is
  never returned. Both the inline and the long-running \<open>try\<close> block return it when their
  calls and the removal of the converted file succeed.
\<close>

theorem transcript_assembly:
  assumes "list_all (\<lambda>alternatives. alternatives \<noteq> []) results"
  shows "combine_transcripts results = Inr (join '' '' (map hd results)) \<and>
         (join '' '' (map hd results) = [] \<longleftrightarrow>
            results = [] \<or> map hd results = [[]]) \<and>
         or_no_speech (join '' '' (map hd results)) =
           (if join '' '' (map hd results) = [] then ''No speech detected in audio.''
            else join '' '' (map hd results)) \<and>
         or_no_speech (join '' '' (map hd results)) \<noteq> [] \<and>
         (results = [] \<longrightarrow>
            or_no_speech (join '' '' (map hd results)) = ''No speech detected in audio.'') \<and>
         (w \<in> set (files s) \<and> read_bytes env w = Inr content \<and>
          recognize env (recognition_config l) (Content content) = Inr results \<and>
          (w = p \<or> os_remove env w = None) \<longrightarrow>
            snd (short_body env p w l s) = Inr (or_no_speech (join '' '' (map hd results)))) \<and>
         (long_running_recognize env (recognition_config l) (Uri uri) = None \<and>
          operation_result env (recognition_config l) (Uri uri) 300 = Inr results \<and>
          (\<not> endswith w ''_converted.wav'' \<or> os_remove env w = None) \<longrightarrow>
            snd (long_body env w l uri b s) = Inr (or_no_speech (join '' '' (map hd results))))"
proof -
  have empty: "join '' '' (map hd results) = [] \<longleftrightarrow> results = [] \<or> map hd results = [[]]"
    using join_empty_iff [of "'' ''" "map hd results"] by simp
  from assms empty show ?thesis
    by (auto simp: combine_transcripts_all or_no_speech_nonempty short_body_returns
        long_body_returns)
       (simp_all add: or_no_speech_def)
qed

theorem transcript_assembly_witness:
  "combine_transcripts [[''Hello world'', ''hello word''], [''this is a test'']] =
     Inr ''Hello world this is a test'' \<and>
   snd (short_body env_ok ''memo.wav'' ''memo.wav'' ''auto'' world0) =
     Inr ''Hello world this is a test'' \<and>
   snd (long_body env_ok ''memo.wav'' ''auto'' ''gs://b/n'' ''n'' world0) =
     Inr ''Hello world this is a test'' \<and>
   or_no_speech (join '' '' (map hd ([] :: string list list))) = ''No speech detected in audio.'' \<and>
   combine_transcripts [[[]]] = Inr [] \<and>
   or_no_speech (join '' '' (map hd [[[]]])) = ''No speech detected in audio.'' \<and>
   combine_transcripts [[[]], [[]]] = Inr '' '' \<and>
   or_no_speech (join '' '' (map hd [[[]], [[]]])) = '' ''"
proof -
  have h1: "list_all (\<lambda>alternatives. alternatives \<noteq> [])
      [[''Hello world'', ''hello word''], [''this is a test'']]" by simp
  have h2: "list_all (\<lambda>alternatives. alternatives \<noteq> []) [[''Hello world''], [''this is a test'']]"
    by simp
  have h3: "list_all (\<lambda>alternatives. alternatives \<noteq> []) ([] :: string list list)" by simp
  have h4: "list_all (\<lambda>alternatives. alternatives \<noteq> []) [[[]] :: string list]" by simp
  have h5: "list_all (\<lambda>alternatives. alternatives \<noteq> []) [[[]], [[]] :: string list]" by simp
  from transcript_assembly [OF h1, of "''memo.wav''" world0 env_ok "''RIFF''" "''auto''" "''memo.wav''"]
       transcript_assembly [OF h2, of "''memo.wav''" world0 env_ok "''RIFF''" "''auto''" "''memo.wav''"
         "''gs://b/n''" "''n''"]
       transcript_assembly [OF h3]
       transcript_assembly [OF h4]
       transcript_assembly [OF h5]
  show ?thesis
    by (simp add: world0_def endswith_def)
qed

text \<open>
  C4, as the claim states it, fails: the recognition answers one result whose best
  alternative is the empty text. The result list is not empty and the concatenation of the
  best alternatives is the empty string, yet the transcript returned is the sentinel.
\<close>

theorem empty_transcript_counterexample:
  "recognize env_empty_segment (recognition_config ''auto'') (Content ''RIFF'') = Inr [[[]]] \<and>
   [[[]]] \<noteq> ([] :: recognize_response) \<and>
   join '' '' (map hd [[[]]]) = [] \<and>
   snd (transcribe_audio env_empty_segment ''memo.wav'' ''auto'' world0) =
     Inr ''No speech detected in audio.''"
  by (simp add: model_defs string_defs)

section \<open>Converting to WAV\<close>

text \<open>
  C7, as the claim states it, fails: the command line of the conversion has no \<open>-vn\<close>, and
  for a path without extension whose directory has a dot the output is not named after the
  stem of the input.
\<close>

theorem convert_no_video_flag_counterexample:
  "spawned (trace (fst (convert_to_wav env_ok ''memo.mp3'' world0))) =
     [[''ffmpeg'', ''-i'', ''memo.mp3'', ''-ar'', ''16000'', ''-ac'', ''1'', ''-y'',
       ''memo_converted.wav'']] \<and>
   ''-vn'' \<notin> set (ffmpeg_argv ''memo.mp3'' ''memo_converted.wav'') \<and>
   fst (splitext ''rec.v2/memo'') = ''rec.v2/memo'' \<and>
   snd (convert_to_wav env_ok ''rec.v2/memo'' world0) = Inr ''rec_converted.wav''"
  by (simp add: model_defs string_defs)

lemma splitext_no_dot: "CHR ''.'' \<notin> set path \<Longrightarrow> splitext path = (path, [])"
  using rfind_lower_bound [of "CHR ''/''" path] by (simp add: splitext_def rfind_def Let_def)

lemma output_is_stem:
  assumes "snd (splitext path) \<noteq> [] \<or> CHR ''.'' \<notin> set path"
  shows "rsplit1_head (CHR ''.'') path = fst (splitext path)"
proof (cases "snd (splitext path) \<noteq> []")
  case True
  then show ?thesis by (rule rsplit_is_splitext_root)
next
  case False
  with assms have "CHR ''.'' \<notin> set path" by simp
  then show ?thesis by (simp add: splitext_no_dot rsplit1_head_def)
qed

text \<open>
  C7, amended: a path whose extension is \<open>.wav\<close> in any letter case is returned unchanged,
  with no process started and no file created. For every other path \<open>ffmpeg\<close> is run once
  with \<open>-ar 16000 -ac 1 -y\<close> (mono, 16000 Hz, overwrite; no flag about video) and an output
  path that ends in \<open>_converted.wav\<close>; whenever the path has an extension, or no dot at
  all, the output path is the stem of the path followed by \<open>_converted.wav\<close>. When
  \<open>ffmpeg\<close> completes the output path is returned and the file exists; when it exits with
  a non-zero status and its standard error output decodes, an exception with the text
  \<open>Failed to convert audio: \<close> and that output is raised, and no file is created.
\<close>

theorem convert_to_wav_contract:
  "(lower (snd (splitext path)) = ''.wav'' \<longrightarrow> convert_to_wav env path s = (s, Inr path)) \<and>
   (lower (snd (splitext path)) \<noteq> ''.wav'' \<longrightarrow>
      (\<exists>out.
         trace (fst (convert_to_wav env path s)) =
           trace s @ [Spawn [''ffmpeg'', ''-i'', path, ''-ar'', ''16000'', ''-ac'', ''1'', ''-y'', out]] \<and>
         endswith out ''_converted.wav'' \<and>
         (snd (splitext path) \<noteq> [] \<or> CHR ''.'' \<notin> set path \<longrightarrow>
            out = fst (splitext path) @ ''_converted.wav'') \<and>
         (\<forall>stdout. run env (ffmpeg_argv path out) = Completed stdout \<longrightarrow>
            snd (convert_to_wav env path s) = Inr out \<and>
            out \<in> set (files (fst (convert_to_wav env path s)))) \<and>
         (\<forall>msg err. run env (ffmpeg_argv path out) = CalledProcessError msg (Inr err) \<longrightarrow>
            snd (convert_to_wav env path s) = Inl (Exn (''Failed to convert audio: '' @ err)) \<and>
            files (fst (convert_to_wav env path s)) = files s)))"
proof (intro conjI impI)
  assume "lower (snd (splitext path)) = ''.wav''"
  then show "convert_to_wav env path s = (s, Inr path)"
    by (simp add: convert_to_wav_def)
next
  let ?out = "rsplit1_head (CHR ''.'') path @ ''_converted.wav''"
  assume other: "lower (snd (splitext path)) \<noteq> ''.wav''"
  have call: "trace (fst (convert_to_wav env path s)) =
      trace s @ [Spawn [''ffmpeg'', ''-i'', path, ''-ar'', ''16000'', ''-ac'', ''1'', ''-y'', ?out]]"
    using other
    by (simp add: convert_to_wav_def Let_def emit_def ffmpeg_argv_def
        split: proc_result.splits sum.splits)
  have suffix: "endswith ?out ''_converted.wav''"
    by (simp add: endswith_def)
  have stem: "snd (splitext path) \<noteq> [] \<or> CHR ''.'' \<notin> set path \<longrightarrow>
      ?out = fst (splitext path) @ ''_converted.wav''"
    using output_is_stem [of path] by simp
  have completed: "\<forall>stdout. run env (ffmpeg_argv path ?out) = Completed stdout \<longrightarrow>
      snd (convert_to_wav env path s) = Inr ?out \<and>
      ?out \<in> set (files (fst (convert_to_wav env path s)))"
    using other by (simp add: convert_to_wav_def Let_def emit_def)
  have failed: "\<forall>msg err. run env (ffmpeg_argv path ?out) = CalledProcessError msg (Inr err) \<longrightarrow>
      snd (convert_to_wav env path s) = Inl (Exn (''Failed to convert audio: '' @ err)) \<and>
      files (fst (convert_to_wav env path s)) = files s"
    using other by (simp add: convert_to_wav_def Let_def emit_def)
  from call suffix stem completed failed
  show "\<exists>out.
         trace (fst (convert_to_wav env path s)) =
           trace s @ [Spawn [''ffmpeg'', ''-i'', path, ''-ar'', ''16000'', ''-ac'', ''1'', ''-y'', out]] \<and>
         endswith out ''_converted.wav'' \<and>
         (snd (splitext path) \<noteq> [] \<or> CHR ''.'' \<notin> set path \<longrightarrow>
            out = fst (splitext path) @ ''_converted.wav'') \<and>
         (\<forall>stdout. run env (ffmpeg_argv path out) = Completed stdout \<longrightarrow>
            snd (convert_to_wav env path s) = Inr out \<and>
            out \<in> set (files (fst (convert_to_wav env path s)))) \<and>
         (\<forall>msg err. run env (ffmpeg_argv path out) = CalledProcessError msg (Inr err) \<longrightarrow>
            snd (convert_to_wav env path s) = Inl (Exn (''Failed to convert audio: '' @ err)) \<and>
            files (fst (convert_to_wav env path s)) = files s)"
    by (intro exI [of _ ?out] conjI)
qed

theorem convert_to_wav_contract_witness:
  "convert_to_wav env_ok ''memo.WAV'' world0 = (world0, Inr ''memo.WAV'') \<and>
   snd (convert_to_wav env_ok ''memo.mp3'' world0) = Inr ''memo_converted.wav'' \<and>
   ''memo_converted.wav'' \<in> set (files (fst (convert_to_wav env_ok ''memo.mp3'' world0))) \<and>
   snd (convert_to_wav env_ffmpeg_fails ''memo.mp3'' world0) =
     Inl (Exn ''Failed to convert audio: Invalid data found when processing input'') \<and>
   fst (splitext ''memo.mp3'') @ ''_converted.wav'' = ''memo_converted.wav''"
proof -
  have wav: "lower (snd (splitext ''memo.WAV'')) = ''.wav''"
    by (simp add: string_defs)
  have mp3: "lower (snd (splitext ''memo.mp3'')) \<noteq> ''.wav''" "snd (splitext ''memo.mp3'') \<noteq> []"
    and stem: "fst (splitext ''memo.mp3'') = ''memo''"
    by (simp_all add: string_defs)
  from convert_to_wav_contract [of "''memo.WAV''" env_ok world0] wav
  have unchanged: "convert_to_wav env_ok ''memo.WAV'' world0 = (world0, Inr ''memo.WAV'')"
    by simp
  from convert_to_wav_contract [of "''memo.mp3''" env_ok world0] mp3 stem
  have ok: "snd (convert_to_wav env_ok ''memo.mp3'' world0) = Inr ''memo_converted.wav'' \<and>
      ''memo_converted.wav'' \<in> set (files (fst (convert_to_wav env_ok ''memo.mp3'' world0)))"
    by auto
  from convert_to_wav_contract [of "''memo.mp3''" env_ffmpeg_fails world0] mp3 stem
  have failed: "snd (convert_to_wav env_ffmpeg_fails ''memo.mp3'' world0) =
      Inl (Exn ''Failed to convert audio: Invalid data found when processing input'')"
    by auto
  from unchanged ok failed stem show ?thesis by simp
qed

section \<open>Probing the duration\<close>

text \<open>
  C8, as the claim states it, fails: the prober used for routing starts \<open>ffprobe\<close> at once,
  also when the metadata of the file would give the length, and never reads the metadata.
\<close>

theorem routing_probe_counterexample:
  "mutagen_file env_ok ''memo.wav'' = MutagenInfo (Some (Finite 30.5)) \<and>
   trace (fst (get_audio_duration env_ok ''memo.wav'' world0)) =
     [Spawn [''ffprobe'', ''-v'', ''error'', ''-show_entries'', ''format=duration'',
             ''-of'', ''default=noprint_wrappers=1:nokey=1'', ''memo.wav'']] \<and>
   MutagenFile ''memo.wav'' \<notin> set (trace (fst (get_audio_duration env_ok ''memo.wav'' world0)))"
  by (simp add: model_defs string_defs)

lemma ffprobe_json_duration_fails:
  assumes "\<forall>out v d. run env (ffprobe_json_argv p) = Completed out \<longrightarrow>
             json_format_duration env out = Inr v \<longrightarrow> float_of_str env v \<noteq> Inr d"
  shows "snd (ffprobe_json_duration env p s) = Finite 0"
  using assms
  by (auto simp: ffprobe_json_duration_def Let_def duration_except_def
      split: proc_result.splits sum.splits)

text \<open>
  C8, amended: the prober used for routing, \<open>_get_audio_duration\<close>, makes one outside call,
  the \<open>ffprobe\<close> process with plain output; it returns the number parsed from that output,
  and \<open>0.0\<close> whenever the process fails or its output is not a number; it never raises and
  touches no file. The prober of the player, \<open>get_duration\<close>, first reads the metadata and
  returns its length without a process when there is one; when there is no file object
  or no length it falls back to \<open>ffprobe\<close> with JSON output and returns the parsed
  duration; it returns \<open>0.0\<close> when the metadata reader raises or the fallback fails.
\<close>

theorem duration_probers:
  "trace (fst (get_audio_duration env p s)) = trace s @ [Spawn (ffprobe_argv p)] \<and>
   files (fst (get_audio_duration env p s)) = files s \<and>
   (\<forall>out d. run env (ffprobe_argv p) = Completed out \<and> float_of_str env (strip out) = Inr d \<longrightarrow>
      snd (get_audio_duration env p s) = d) \<and>
   ((\<forall>out d. run env (ffprobe_argv p) = Completed out \<longrightarrow> float_of_str env (strip out) \<noteq> Inr d) \<longrightarrow>
      snd (get_audio_duration env p s) = Finite 0) \<and>
   take (Suc (length (trace s))) (trace (fst (get_duration env p s))) = trace s @ [MutagenFile p] \<and>
   (\<forall>len. mutagen_file env p = MutagenInfo (Some len) \<longrightarrow>
      get_duration env p s = (emit (MutagenFile p) s, len)) \<and>
   (mutagen_file env p = MutagenNone \<or> mutagen_file env p = MutagenInfo None \<longrightarrow>
      get_duration env p s = ffprobe_json_duration env p (emit (MutagenFile p) s) \<and>
      take (Suc (Suc (length (trace s)))) (trace (fst (get_duration env p s))) =
        trace s @ [MutagenFile p, Spawn (ffprobe_json_argv p)]) \<and>
   (\<forall>out v d. run env (ffprobe_json_argv p) = Completed out \<and>
       json_format_duration env out = Inr v \<and> float_of_str env v = Inr d \<longrightarrow>
       snd (ffprobe_json_duration env p s) = d) \<and>
   ((\<forall>out v d. run env (ffprobe_json_argv p) = Completed out \<longrightarrow>
        json_format_duration env out = Inr v \<longrightarrow> float_of_str env v \<noteq> Inr d) \<longrightarrow>
      snd (ffprobe_json_duration env p s) = Finite 0) \<and>
   ((\<exists>e. mutagen_file env p = MutagenRaises e) \<longrightarrow> snd (get_duration env p s) = Finite 0)"
proof (intro conjI)
  show "trace (fst (get_audio_duration env p s)) = trace s @ [Spawn (ffprobe_argv p)]"
    by (simp add: get_audio_duration_def Let_def emit_def split: proc_result.splits sum.splits)
  show "files (fst (get_audio_duration env p s)) = files s"
    by (simp add: get_audio_duration_def Let_def emit_def split: proc_result.splits sum.splits)
  show "\<forall>out d. run env (ffprobe_argv p) = Completed out \<and> float_of_str env (strip out) = Inr d \<longrightarrow>
      snd (get_audio_duration env p s) = d"
    by (simp add: get_audio_duration_value)
  show "(\<forall>out d. run env (ffprobe_argv p) = Completed out \<longrightarrow> float_of_str env (strip out) \<noteq> Inr d) \<longrightarrow>
      snd (get_audio_duration env p s) = Finite 0"
    by (auto simp: get_audio_duration_value split: proc_result.splits sum.splits)
  show "take (Suc (length (trace s))) (trace (fst (get_duration env p s))) = trace s @ [MutagenFile p]"
    by (auto simp: get_duration_def ffprobe_json_duration_def duration_except_def Let_def emit_def
        split: mutagen_result.splits option.splits proc_result.splits sum.splits)
  show "\<forall>len. mutagen_file env p = MutagenInfo (Some len) \<longrightarrow>
      get_duration env p s = (emit (MutagenFile p) s, len)"
    by (simp add: get_duration_def Let_def)
  show "mutagen_file env p = MutagenNone \<or> mutagen_file env p = MutagenInfo None \<longrightarrow>
      get_duration env p s = ffprobe_json_duration env p (emit (MutagenFile p) s) \<and>
      take (Suc (Suc (length (trace s)))) (trace (fst (get_duration env p s))) =
        trace s @ [MutagenFile p, Spawn (ffprobe_json_argv p)]"
    by (auto simp: get_duration_def ffprobe_json_duration_def duration_except_def Let_def emit_def
        split: proc_result.splits sum.splits)
  show "\<forall>out v d. run env (ffprobe_json_argv p) = Completed out \<and>
       json_format_duration env out = Inr v \<and> float_of_str env v = Inr d \<longrightarrow>
       snd (ffprobe_json_duration env p s) = d"
    by (simp add: ffprobe_json_duration_def Let_def)
  show "(\<forall>out v d. run env (ffprobe_json_argv p) = Completed out \<longrightarrow>
        json_format_duration env out = Inr v \<longrightarrow> float_of_str env v \<noteq> Inr d) \<longrightarrow>
      snd (ffprobe_json_duration env p s) = Finite 0"
    using ffprobe_json_duration_fails by blast
  show "(\<exists>e. mutagen_file env p = MutagenRaises e) \<longrightarrow> snd (get_duration env p s) = Finite 0"
    by (auto simp: get_duration_def duration_except_def Let_def)
qed

theorem duration_probers_witness:
  "snd (get_audio_duration env_ok ''memo.wav'' world0) = Finite 30.5 \<and>
   snd (get_audio_duration env_ffmpeg_fails ''memo.wav'' world0) = Finite 0 \<and>
   get_duration env_ok ''memo.wav'' world0 = (emit (MutagenFile ''memo.wav'') world0, Finite 30.5) \<and>
   get_duration env_no_metadata ''memo.wav'' world0 =
     ffprobe_json_duration env_no_metadata ''memo.wav'' (emit (MutagenFile ''memo.wav'') world0) \<and>
   snd (ffprobe_json_duration env_no_metadata ''memo.wav'' world0) = Finite 30.5"
  using duration_probers [of env_ok "''memo.wav''" world0]
    duration_probers [of env_ffmpeg_fails "''memo.wav''" world0]
    duration_probers [of env_no_metadata "''memo.wav''" world0]
  by (simp add: string_defs)

end
